theory Spec2Isabelle
  imports Complex_Main "HOL-Library.Sublist"
begin

text \<open>
  The repository holds three versions of the dashboard script: \<^verbatim>\<open>script.js\<close>, which
  filters by a range of years and has a placeholder for the layer; the first unnamed
  script (\<^verbatim>\<open>part_000\<close>), which filters by a range of years and by layer; and the
  second unnamed script (\<^verbatim>\<open>part_001\<close>), which filters by one exact year and caps
  the preview at 255 rows. Each is modelled as it is written, with the state of the
  page passed in and returned.
\<close>

section \<open>JavaScript values used by the dashboard\<close>

text \<open>
  The dashboard is plain JavaScript. Its data points come from \<^verbatim>\<open>JSON.parse\<close>, so a
  field of a data point is a primitive value: absent (\<^verbatim>\<open>undefined\<close>), \<^verbatim>\<open>null\<close>, a
  boolean, a number or a string. Nested arrays and objects inside a field are not
  modelled. A number is not-a-number, an infinity, or a finite value; a finite value is
  kept as the real number it denotes (both zeros are the one value \<open>Fin 0\<close>), and the
  rounding of binary64 arithmetic is not modelled. Strings are lists of 8-bit
  characters.
\<close>

datatype jsnum = NaN | NegInf | Fin real | PosInf

datatype jsval = JUndefined | JNull | JBool bool | JNum jsnum | JStr string

text \<open>\<^verbatim>\<open>Number::lessThan(x, y)\<close>: \<open>None\<close> is the result \<^verbatim>\<open>undefined\<close>.\<close>

fun lessThan_num :: "jsnum \<Rightarrow> jsnum \<Rightarrow> bool option" where
  "lessThan_num NaN y = None"
| "lessThan_num x NaN = None"
| "lessThan_num PosInf y = Some False"
| "lessThan_num x PosInf = Some True"
| "lessThan_num x NegInf = Some False"
| "lessThan_num NegInf y = Some True"
| "lessThan_num (Fin a) (Fin b) = Some (a < b)"

subsection \<open>Strings to numbers\<close>

text \<open>
  White space is the white space and line terminator characters below U+0080; the
  value of a run of digits is its exact value.
\<close>

definition isWhiteSpace :: "char \<Rightarrow> bool" where
  "isWhiteSpace c \<longleftrightarrow> c \<in> set [CHR 0x09, CHR 0x0A, CHR 0x0B, CHR 0x0C, CHR 0x0D, CHR 0x20]"

definition digitVal :: "char \<Rightarrow> nat option" where
  "digitVal c =
     (let n = (of_char c :: nat) in
      if 48 \<le> n \<and> n \<le> 57 then Some (n - 48)
      else if 97 \<le> n \<and> n \<le> 122 then Some (n - 87)
      else if 65 \<le> n \<and> n \<le> 90 then Some (n - 55)
      else None)"

definition isDigit :: "nat \<Rightarrow> char \<Rightarrow> bool" where
  "isDigit R c = (case digitVal c of Some d \<Rightarrow> d < R | None \<Rightarrow> False)"

definition digitsValue :: "nat \<Rightarrow> string \<Rightarrow> nat" where
  "digitsValue R ds = foldl (\<lambda>acc c. acc * R + (case digitVal c of Some d \<Rightarrow> d | None \<Rightarrow> 0)) 0 ds"

text \<open>
  \<^verbatim>\<open>parseInt(s)\<close> with no radix: leading white space is skipped, one sign is read, a
  \<^verbatim>\<open>0x\<close> prefix selects radix 16, and the longest run of digits is converted; with no
  digit the result is \<^verbatim>\<open>NaN\<close>. Whatever follows the digits is ignored.
\<close>

definition parseInt :: "string \<Rightarrow> jsnum" where
  "parseInt inputString =
     (let S = dropWhile isWhiteSpace inputString;
          sign = (if S \<noteq> [] \<and> hd S = CHR ''-'' then - 1 else (1 :: real));
          S1 = (if S \<noteq> [] \<and> (hd S = CHR ''+'' \<or> hd S = CHR ''-'') then tl S else S);
          hex = (take 2 S1 = ''0x'' \<or> take 2 S1 = ''0X'');
          R = (if hex then 16 else 10);
          S2 = (if hex then drop 2 S1 else S1);
          Z = takeWhile (isDigit R) S2
      in if Z = [] then NaN else Fin (sign * real (digitsValue R Z)))"

text \<open>
  \<^verbatim>\<open>StringToNumber\<close>, the conversion behind \<^verbatim>\<open>ToNumber\<close> on a string: the trimmed
  text must be a whole numeric literal (empty text is 0).
\<close>

definition trimString :: "string \<Rightarrow> string" where
  "trimString s = rev (dropWhile isWhiteSpace (rev (dropWhile isWhiteSpace s)))"

definition exponentPart :: "string \<Rightarrow> int option" where
  "exponentPart e =
     (if e = [] then Some 0
      else if hd e = CHR ''e'' \<or> hd e = CHR ''E'' then
        (let e1 = tl e;
             neg = (e1 \<noteq> [] \<and> hd e1 = CHR ''-'');
             e2 = (if e1 \<noteq> [] \<and> (hd e1 = CHR ''+'' \<or> hd e1 = CHR ''-'') then tl e1 else e1)
         in if e2 \<noteq> [] \<and> list_all (isDigit 10) e2
            then Some ((if neg then - 1 else 1) * int (digitsValue 10 e2))
            else None)
      else None)"

definition strUnsignedDecimalLiteral :: "string \<Rightarrow> jsnum" where
  "strUnsignedDecimalLiteral u =
     (if u = ''Infinity'' then PosInf
      else
        (let ip = takeWhile (isDigit 10) u;
             r1 = dropWhile (isDigit 10) u;
             dot = (r1 \<noteq> [] \<and> hd r1 = CHR ''.'');
             fp = (if dot then takeWhile (isDigit 10) (tl r1) else []);
             r2 = (if dot then dropWhile (isDigit 10) (tl r1) else r1)
         in if ip = [] \<and> fp = [] then NaN
            else (case exponentPart r2 of
                    None \<Rightarrow> NaN
                  | Some e \<Rightarrow>
                      (let m = real (digitsValue 10 (ip @ fp)) / 10 ^ length fp
                       in Fin (if 0 \<le> e then m * 10 ^ nat e else m / 10 ^ nat (- e))))))"

definition nonDecimalIntegerLiteral :: "string \<Rightarrow> jsnum option" where
  "nonDecimalIntegerLiteral t =
     (let p = take 2 t; ds = drop 2 t;
          R = (if p = ''0x'' \<or> p = ''0X'' then 16
               else if p = ''0o'' \<or> p = ''0O'' then 8
               else if p = ''0b'' \<or> p = ''0B'' then 2 else (0 :: nat))
      in if R = 0 then None
         else Some (if ds \<noteq> [] \<and> list_all (isDigit R) ds then Fin (real (digitsValue R ds)) else NaN))"

fun negate :: "jsnum \<Rightarrow> jsnum" where
  "negate NaN = NaN"
| "negate NegInf = PosInf"
| "negate PosInf = NegInf"
| "negate (Fin x) = Fin (- x)"

definition stringToNumber :: "string \<Rightarrow> jsnum" where
  "stringToNumber s =
     (let t = trimString s in
      if t = [] then Fin 0
      else (case nonDecimalIntegerLiteral t of
              Some n \<Rightarrow> n
            | None \<Rightarrow>
                if hd t = CHR ''-'' then negate (strUnsignedDecimalLiteral (tl t))
                else if hd t = CHR ''+'' then strUnsignedDecimalLiteral (tl t)
                else strUnsignedDecimalLiteral t))"

subsection \<open>Coercions and operators\<close>

fun toNumber :: "jsval \<Rightarrow> jsnum" where
  "toNumber JUndefined = NaN"
| "toNumber JNull = Fin 0"
| "toNumber (JBool b) = Fin (if b then 1 else 0)"
| "toNumber (JNum n) = n"
| "toNumber (JStr s) = stringToNumber s"

text \<open>The global \<^verbatim>\<open>isNaN(v)\<close> converts its argument to a number first.\<close>

definition isNaN :: "jsval \<Rightarrow> bool" where
  "isNaN v \<longleftrightarrow> toNumber v = NaN"

text \<open>\<^verbatim>\<open>ToBoolean\<close>, the test behind \<^verbatim>\<open>if (v)\<close>, \<^verbatim>\<open>!v\<close> and \<^verbatim>\<open>filter(y => y)\<close>.\<close>

fun truthy :: "jsval \<Rightarrow> bool" where
  "truthy JUndefined = False"
| "truthy JNull = False"
| "truthy (JBool b) = b"
| "truthy (JNum n) = (n \<noteq> NaN \<and> n \<noteq> Fin 0)"
| "truthy (JStr s) = (s \<noteq> [])"

text \<open>
  The relational operators with a number on the right, as in \<^verbatim>\<open>d.year >= yearFrom\<close>:
  the left operand is converted with \<^verbatim>\<open>ToNumber\<close>, and a comparison whose outcome is
  \<^verbatim>\<open>undefined\<close> is false.
\<close>

definition js_ge :: "jsval \<Rightarrow> jsnum \<Rightarrow> bool" where
  "js_ge x y = (case lessThan_num (toNumber x) y of Some False \<Rightarrow> True | _ \<Rightarrow> False)"

definition js_le :: "jsval \<Rightarrow> jsnum \<Rightarrow> bool" where
  "js_le x y = (case lessThan_num y (toNumber x) of Some False \<Rightarrow> True | _ \<Rightarrow> False)"

definition js_gt :: "jsnum \<Rightarrow> jsnum \<Rightarrow> bool" where
  "js_gt x y = (case lessThan_num y x of Some True \<Rightarrow> True | _ \<Rightarrow> False)"

text \<open>Strict equality \<^verbatim>\<open>v === n\<close> with a number \<open>n\<close>: no conversion, and \<^verbatim>\<open>NaN\<close> equals nothing.\<close>

definition strictEq_num :: "jsval \<Rightarrow> jsnum \<Rightarrow> bool" where
  "strictEq_num v n = (case v of JNum m \<Rightarrow> m \<noteq> NaN \<and> n \<noteq> NaN \<and> m = n | _ \<Rightarrow> False)"


section \<open>Data points, filter settings and the page state\<close>

text \<open>
  A data point is an object of the \<^verbatim>\<open>data_points\<close> array; \<open>d_year d\<close> is the source's
  \<^verbatim>\<open>d.year\<close>, and an absent property reads as \<open>JUndefined\<close>. Only the properties the
  scripts read are kept. The elements of the array are taken to be objects.
\<close>

record datapoint =
  d_indicator :: jsval
  d_country :: jsval
  d_year :: jsval
  d_value :: jsval
  d_category :: jsval
  d_layer :: jsval
  d_unit :: jsval

text \<open>
  The \<^verbatim>\<open>filters\<close> object. \<^verbatim>\<open>getFilters()\<close> fills it with the \<^verbatim>\<open>.value\<close> of select
  elements, which are strings; \<open>None\<close> is a property that is absent (\<^verbatim>\<open>undefined\<close>).
  The range scripts read \<open>yearFrom\<close>, \<open>yearTo\<close> and \<open>layer\<close>, the single-year script
  reads \<open>year\<close>.
\<close>

record filters =
  country :: "string option"
  indicator :: "string option"
  yearFrom :: "string option"
  yearTo :: "string option"
  layer :: "string option"
  year :: "string option"

text \<open>\<^verbatim>\<open>if (filters.country)\<close>: a present, non-empty string.\<close>

fun isSet :: "string option \<Rightarrow> bool" where
  "isSet None = False"
| "isSet (Some s) = (s \<noteq> [])"

text \<open>
  What may stand where an array of data points is expected: the \<^verbatim>\<open>data\<close> argument
  of \<^verbatim>\<open>applyFilters\<close> and the global \<^verbatim>\<open>allIndicatorsData\<close>. \<open>DataOther\<close> is any value
  that is neither \<^verbatim>\<open>undefined\<close>, \<^verbatim>\<open>null\<close> nor an array.
\<close>

datatype data_arg = DataUndefined | DataNull | DataOther | DataArray "datapoint list"

text \<open>
  The content of the \<^verbatim>\<open>preview-container\<close> element. The markup is abstracted to its
  structure: one of the two messages, or a table with one row for each listed data
  point, followed, when \<open>Some (m, n)\<close>, by the note
  \<^verbatim>\<open>Showing first m of n results\<close>. \<open>PreviewInitial\<close> is the markup of the page as
  loaded.
\<close>

datatype preview =
    PreviewInitial
  | NoDataAvailable
  | NoDataMatches
  | PreviewTable "datapoint list" "(nat \<times> nat) option"

text \<open>
  The state the scripts read and write: the two globals, the values of the select
  elements, the values of the \<^verbatim>\<open>option\<close> elements of the three year selects, the
  text of the \<^verbatim>\<open>summary\<close> element, the preview container, and the messages shown
  with \<^verbatim>\<open>alert\<close>. The elements are taken to exist; the console output is left
  out.
\<close>

record dashboard =
  allIndicatorsData :: data_arg
  filteredData :: "datapoint list"
  countryFilter :: string
  indicatorFilter :: string
  yearFromFilter :: string
  yearToFilter :: string
  layerFilter :: string
  yearFilter :: string
  yearFromOptions :: "string list"
  yearToOptions :: "string list"
  yearOptions :: "string list"
  summary :: string
  previewContainer :: preview
  alerts :: "string list"

datatype error = NoData | ValidationError | TypeError

section \<open>Rendering\<close>

text \<open>The decimal digits of a natural number, as a template literal writes a count.\<close>

definition digitChar :: "nat \<Rightarrow> char" where
  "digitChar d = ''0123456789'' ! d"

fun showNat :: "nat \<Rightarrow> string" where
  "showNat n =
     (if n < 10 then [digitChar n]
      else showNat (n div 10) @ [digitChar (n mod 10)])"

declare showNat.simps [simp del]

definition renderSummary :: "nat \<Rightarrow> dashboard \<Rightarrow> dashboard" where
  "renderSummary count st = st\<lparr>summary := showNat count @ '' points after filter''\<rparr>"

text \<open>
  \<^verbatim>\<open>row.value.toLocaleString()\<close> throws a \<^verbatim>\<open>TypeError\<close> when \<^verbatim>\<open>row.value\<close> is
  \<^verbatim>\<open>null\<close> or \<^verbatim>\<open>undefined\<close>; the exception leaves the container as it was.
  A function with effects returns the exception it ends with, if any, and the state
  it leaves.
\<close>

definition hasLocaleString :: "datapoint \<Rightarrow> bool" where
  "hasLocaleString row \<longleftrightarrow> d_value row \<noteq> JNull \<and> d_value row \<noteq> JUndefined"

text \<open>\<^verbatim>\<open>renderPreview\<close> of \<^verbatim>\<open>script.js\<close> and of the first unnamed script.\<close>

definition renderPreview :: "datapoint list \<Rightarrow> dashboard \<Rightarrow> error option \<times> dashboard" where
  "renderPreview rows st =
     (if length rows = 0 then (None, st\<lparr>previewContainer := NoDataMatches\<rparr>)
      else if \<not> list_all hasLocaleString rows then (Some TypeError, st)
      else (None, st\<lparr>previewContainer := PreviewTable rows None\<rparr>))"

text \<open>\<^verbatim>\<open>renderPreview\<close> of the second unnamed script, with its cap of 255 rows.\<close>

definition maxPreviewRows :: nat where
  "maxPreviewRows = 255"

definition renderPreview_capped :: "datapoint list \<Rightarrow> dashboard \<Rightarrow> error option \<times> dashboard" where
  "renderPreview_capped rows st =
     (if length rows = 0 then (None, st\<lparr>previewContainer := NoDataMatches\<rparr>)
      else
        (let displayRows = take maxPreviewRows rows;
             hasMoreData = (length rows > maxPreviewRows)
         in if \<not> list_all hasLocaleString displayRows then (Some TypeError, st)
            else (None, st\<lparr>previewContainer :=
                   PreviewTable displayRows
                     (if hasMoreData then Some (maxPreviewRows, length rows) else None)\<rparr>)))"

text \<open>
  \<^verbatim>\<open>renderResults\<close>: \<^verbatim>\<open>script.js\<close> passes \<^verbatim>\<open>filteredData.slice(0, 10)\<close>, the two
  other scripts pass \<^verbatim>\<open>filteredData\<close>.
\<close>

definition renderResults_script :: "dashboard \<Rightarrow> error option \<times> dashboard" where
  "renderResults_script st =
     renderPreview (take 10 (filteredData st)) (renderSummary (length (filteredData st)) st)"

definition renderResults_part000 :: "dashboard \<Rightarrow> error option \<times> dashboard" where
  "renderResults_part000 st =
     renderPreview (filteredData st) (renderSummary (length (filteredData st)) st)"

definition renderResults_part001 :: "dashboard \<Rightarrow> error option \<times> dashboard" where
  "renderResults_part001 st =
     renderPreview_capped (filteredData st) (renderSummary (length (filteredData st)) st)"

section \<open>Applying the filters\<close>

text \<open>
  \<^verbatim>\<open>getFilters()\<close>: the range scripts read five select elements, the single-year script
  three.
\<close>

definition getFilters :: "dashboard \<Rightarrow> filters" where
  "getFilters st =
     \<lparr>country = Some (countryFilter st), indicator = Some (indicatorFilter st),
      yearFrom = Some (yearFromFilter st), yearTo = Some (yearToFilter st),
      layer = Some (layerFilter st), year = None\<rparr>"

definition getFilters_part001 :: "dashboard \<Rightarrow> filters" where
  "getFilters_part001 st =
     \<lparr>country = Some (countryFilter st), indicator = Some (indicatorFilter st),
      yearFrom = None, yearTo = None, layer = None, year = Some (yearFilter st)\<rparr>"

text \<open>
  The default parameters \<^verbatim>\<open>data = allIndicatorsData\<close> and \<^verbatim>\<open>filters = getFilters()\<close>
  replace an argument that is \<^verbatim>\<open>undefined\<close>.
\<close>

definition dataParam :: "dashboard \<Rightarrow> data_arg \<Rightarrow> data_arg" where
  "dataParam st a = (case a of DataUndefined \<Rightarrow> allIndicatorsData st | _ \<Rightarrow> a)"

definition filtersParam :: "dashboard \<Rightarrow> filters option \<Rightarrow> filters" where
  "filtersParam st a = (case a of None \<Rightarrow> getFilters st | Some f \<Rightarrow> f)"

definition filtersParam_part001 :: "dashboard \<Rightarrow> filters option \<Rightarrow> filters" where
  "filtersParam_part001 st a = (case a of None \<Rightarrow> getFilters_part001 st | Some f \<Rightarrow> f)"

text \<open>
  \<^verbatim>\<open>!data || !Array.isArray(data) || data.length === 0\<close>: only a non-empty array
  passes.
\<close>

fun noDataAvailable :: "data_arg \<Rightarrow> bool" where
  "noDataAvailable (DataArray xs) = (length xs = 0)"
| "noDataAvailable _ = True"

fun arrayOf :: "data_arg \<Rightarrow> datapoint list" where
  "arrayOf (DataArray xs) = xs"
| "arrayOf _ = []"

text \<open>The blocks of \<^verbatim>\<open>applyFilters\<close>, one definition for each, in the order of the source.\<close>

definition filterByCountry :: "filters \<Rightarrow> datapoint list \<Rightarrow> datapoint list" where
  "filterByCountry fs filtered =
     (case country fs of
        Some c \<Rightarrow> if c \<noteq> [] then filter (\<lambda>d. d_country d = JStr c) filtered else filtered
      | None \<Rightarrow> filtered)"

definition filterByIndicator :: "filters \<Rightarrow> datapoint list \<Rightarrow> datapoint list" where
  "filterByIndicator fs filtered =
     (case indicator fs of
        Some i \<Rightarrow> if i \<noteq> [] then filter (\<lambda>d. d_indicator d = JStr i) filtered else filtered
      | None \<Rightarrow> filtered)"

definition filterByYearFrom :: "filters \<Rightarrow> datapoint list \<Rightarrow> datapoint list" where
  "filterByYearFrom fs filtered =
     (case yearFrom fs of
        Some s \<Rightarrow> if s \<noteq> [] then filter (\<lambda>d. js_ge (d_year d) (parseInt s)) filtered else filtered
      | None \<Rightarrow> filtered)"

definition filterByYearTo :: "filters \<Rightarrow> datapoint list \<Rightarrow> datapoint list" where
  "filterByYearTo fs filtered =
     (case yearTo fs of
        Some s \<Rightarrow> if s \<noteq> [] then filter (\<lambda>d. js_le (d_year d) (parseInt s)) filtered else filtered
      | None \<Rightarrow> filtered)"

definition yearRangeInvalid :: "filters \<Rightarrow> bool" where
  "yearRangeInvalid fs =
     (case (yearFrom fs, yearTo fs) of
        (Some a, Some b) \<Rightarrow> a \<noteq> [] \<and> b \<noteq> [] \<and> js_gt (parseInt a) (parseInt b)
      | _ \<Rightarrow> False)"

definition hasValue :: "datapoint \<Rightarrow> bool" where
  "hasValue d \<longleftrightarrow> d_value d \<noteq> JNull \<and> d_value d \<noteq> JUndefined \<and> \<not> isNaN (d_value d)"

definition filterByLayer :: "filters \<Rightarrow> datapoint list \<Rightarrow> datapoint list" where
  "filterByLayer fs filtered =
     (case layer fs of
        Some l \<Rightarrow> if l \<noteq> [] \<and> l \<noteq> ''All'' then filter (\<lambda>d. d_layer d = JStr l) filtered
                  else filtered
      | None \<Rightarrow> filtered)"

definition filterByYear :: "filters \<Rightarrow> datapoint list \<Rightarrow> datapoint list" where
  "filterByYear fs filtered =
     (case year fs of
        Some s \<Rightarrow> if s \<noteq> [] then filter (\<lambda>d. strictEq_num (d_year d) (parseInt s)) filtered
                  else filtered
      | None \<Rightarrow> filtered)"

definition showNoData :: "dashboard \<Rightarrow> dashboard" where
  "showNoData st = st\<lparr>summary := ''No data available'', previewContainer := NoDataAvailable\<rparr>"

definition alert :: "string \<Rightarrow> dashboard \<Rightarrow> dashboard" where
  "alert msg st = st\<lparr>alerts := alerts st @ [msg]\<rparr>"

text \<open>
  The end of \<^verbatim>\<open>applyFilters\<close>: \<^verbatim>\<open>filteredData = filtered; renderResults()\<close>. The source
  returns nothing; the model returns the array it stored, or the exit it took.
\<close>

definition storeAndRender ::
  "(dashboard \<Rightarrow> error option \<times> dashboard) \<Rightarrow> datapoint list \<Rightarrow> dashboard
     \<Rightarrow> (error + datapoint list) \<times> dashboard" where
  "storeAndRender renderResults filtered st =
     (case renderResults (st\<lparr>filteredData := filtered\<rparr>) of
        (None, st') \<Rightarrow> (Inr filtered, st')
      | (Some e, st') \<Rightarrow> (Inl e, st'))"

text \<open>\<^verbatim>\<open>applyFilters\<close> of \<^verbatim>\<open>script.js\<close>: the layer block is an empty placeholder.\<close>

definition applyFilters_script ::
  "dashboard \<Rightarrow> data_arg \<Rightarrow> filters option \<Rightarrow> (error + datapoint list) \<times> dashboard" where
  "applyFilters_script st dataArg filtersArg =
     (let data = dataParam st dataArg;
          fs = filtersParam st filtersArg
      in if noDataAvailable data then (Inl NoData, showNoData st)
         else
           (let filtered = arrayOf data;
                filtered = filterByCountry fs filtered;
                filtered = filterByIndicator fs filtered;
                filtered = filterByYearFrom fs filtered;
                filtered = filterByYearTo fs filtered
            in if yearRangeInvalid fs
               then (Inl ValidationError,
                     alert ''From year must be less than or equal to To year'' st)
               else storeAndRender renderResults_script (filter hasValue filtered) st))"

text \<open>\<^verbatim>\<open>applyFilters\<close> of the first unnamed script: the layer block filters.\<close>

definition applyFilters_part000 ::
  "dashboard \<Rightarrow> data_arg \<Rightarrow> filters option \<Rightarrow> (error + datapoint list) \<times> dashboard" where
  "applyFilters_part000 st dataArg filtersArg =
     (let data = dataParam st dataArg;
          fs = filtersParam st filtersArg
      in if noDataAvailable data then (Inl NoData, showNoData st)
         else
           (let filtered = arrayOf data;
                filtered = filterByCountry fs filtered;
                filtered = filterByIndicator fs filtered;
                filtered = filterByYearFrom fs filtered;
                filtered = filterByYearTo fs filtered
            in if yearRangeInvalid fs
               then (Inl ValidationError,
                     alert ''From year must be less than or equal to To year'' st)
               else storeAndRender renderResults_part000
                      (filterByLayer fs (filter hasValue filtered)) st))"

text \<open>
  \<^verbatim>\<open>applyFilters\<close> of the second unnamed script: one exact year, no range check, no
  layer.
\<close>

definition applyFilters_part001 ::
  "dashboard \<Rightarrow> data_arg \<Rightarrow> filters option \<Rightarrow> (error + datapoint list) \<times> dashboard" where
  "applyFilters_part001 st dataArg filtersArg =
     (let data = dataParam st dataArg;
          fs = filtersParam_part001 st filtersArg
      in if noDataAvailable data then (Inl NoData, showNoData st)
         else
           (let filtered = arrayOf data;
                filtered = filterByCountry fs filtered;
                filtered = filterByIndicator fs filtered;
                filtered = filterByYear fs filtered
            in storeAndRender renderResults_part001 (filter hasValue filtered) st))"


text \<open>The three scripts of the repository, and \<^verbatim>\<open>applyFilters\<close> of each.\<close>

datatype script = Script_js | Part_000 | Part_001

fun applyFilters ::
  "script \<Rightarrow> dashboard \<Rightarrow> data_arg \<Rightarrow> filters option \<Rightarrow> (error + datapoint list) \<times> dashboard" where
  "applyFilters Script_js = applyFilters_script"
| "applyFilters Part_000 = applyFilters_part000"
| "applyFilters Part_001 = applyFilters_part001"

fun filtersOf :: "script \<Rightarrow> dashboard \<Rightarrow> filters option \<Rightarrow> filters" where
  "filtersOf Part_001 = filtersParam_part001"
| "filtersOf _ = filtersParam"

section \<open>Year options of the filter bar\<close>

text \<open>
  \<^verbatim>\<open>ToString\<close>, as \<^verbatim>\<open>sort()\<close> and the assignment to \<^verbatim>\<open>option.value\<close> apply it. An
  integer below \<open>10\<^sup>2\<^sup>1\<close> in magnitude is written with its decimal digits. The digits
  of every other finite number depend on its binary64 form, which the model does not
  have: they are the parameter \<open>digits\<close>, and what is proved of the year options
  holds for every choice of it.
\<close>

definition numberToString :: "(real \<Rightarrow> string) \<Rightarrow> jsnum \<Rightarrow> string" where
  "numberToString digits n =
     (case n of
        NaN \<Rightarrow> ''NaN''
      | PosInf \<Rightarrow> ''Infinity''
      | NegInf \<Rightarrow> ''-Infinity''
      | Fin x \<Rightarrow>
          if of_int \<lfloor>x\<rfloor> = x \<and> \<bar>x\<bar> < 10 ^ 21
          then (if x < 0 then ''-'' else []) @ showNat (nat \<lfloor>\<bar>x\<bar>\<rfloor>)
          else digits x)"

fun toString :: "(real \<Rightarrow> string) \<Rightarrow> jsval \<Rightarrow> string" where
  "toString digits JUndefined = ''undefined''"
| "toString digits JNull = ''null''"
| "toString digits (JBool b) = (if b then ''true'' else ''false'')"
| "toString digits (JNum n) = numberToString digits n"
| "toString digits (JStr s) = s"

text \<open>The order of strings under \<^verbatim>\<open><\<close>: by character code, a proper prefix first.\<close>

fun str_less :: "string \<Rightarrow> string \<Rightarrow> bool" where
  "str_less [] [] = False"
| "str_less [] (y # ys) = True"
| "str_less (x # xs) [] = False"
| "str_less (x # xs) (y # ys) =
     (if (of_char x :: nat) < of_char y then True
      else if (of_char y :: nat) < of_char x then False
      else str_less xs ys)"

text \<open>
  \<^verbatim>\<open>[...new Set(xs)]\<close>: the elements in the order of their first occurrence.
\<close>

definition newSet :: "'a list \<Rightarrow> 'a list" where
  "newSet xs = foldl (\<lambda>acc x. if x \<in> set acc then acc else acc @ [x]) [] xs"

text \<open>
  \<^verbatim>\<open>sort()\<close> with no comparison function: \<^verbatim>\<open>undefined\<close> goes last, the other elements
  are ordered by their strings, and elements with equal strings keep their order.
\<close>

fun insertByString :: "string \<times> 'a \<Rightarrow> (string \<times> 'a) list \<Rightarrow> (string \<times> 'a) list" where
  "insertByString (k, x) [] = [(k, x)]"
| "insertByString (k, x) ((k', y) # ys) =
     (if str_less k' k then (k', y) # insertByString (k, x) ys
      else (k, x) # (k', y) # ys)"

definition sortDefault :: "(real \<Rightarrow> string) \<Rightarrow> jsval list \<Rightarrow> jsval list" where
  "sortDefault digits xs =
     (let defined = filter (\<lambda>x. x \<noteq> JUndefined) xs;
          undefs = filter (\<lambda>x. x = JUndefined) xs
      in map snd (foldr insertByString (map (\<lambda>x. (toString digits x, x)) defined) [])
         @ undefs)"

text \<open>
  \<^verbatim>\<open>[...new Set(allIndicatorsData.map(d => d.year))].filter(y => y).sort()\<close>, the
  \<^verbatim>\<open>years\<close> of the two unnamed scripts.
\<close>

definition yearsOf :: "(real \<Rightarrow> string) \<Rightarrow> datapoint list \<Rightarrow> jsval list" where
  "yearsOf digits recs = sortDefault digits (filter truthy (newSet (map d_year recs)))"

text \<open>
  A select element, as far as the scripts use it: the values of its options and its
  own value, which is the value of the selected option. The selects of the filter bar
  are taken to be drop-down lists with no disabled option, and a value that is the
  value of no option stands for a select with no option selected. Appending an option
  to a select with no option selected selects the first option of the list; otherwise
  the selection stays. Assigning to \<^verbatim>\<open>select.value\<close> selects the first option with
  that value, and leaves the select with the empty value when there is none.
\<close>

type_synonym select = "string list \<times> string"

definition appendChild :: "string \<Rightarrow> select \<Rightarrow> select" where
  "appendChild v sel =
     (case sel of (opts, val) \<Rightarrow> (opts @ [v], if val \<in> set opts then val else hd (opts @ [v])))"

definition setValue :: "string \<Rightarrow> select \<Rightarrow> select" where
  "setValue v sel = (case sel of (opts, val) \<Rightarrow> (opts, if v \<in> set opts then v else []))"

text \<open>\<^verbatim>\<open>years.forEach\<close> with an \<^verbatim>\<open>appendChild\<close> of one option for each year.\<close>

definition appendYears :: "(real \<Rightarrow> string) \<Rightarrow> jsval list \<Rightarrow> select \<Rightarrow> select" where
  "appendYears digits years sel = foldl (\<lambda>s y. appendChild (toString digits y) s) sel years"

text \<open>
  The year part of \<^verbatim>\<open>populateFilters\<close>; the country, indicator and layer parts are
  left out. Calling \<^verbatim>\<open>map\<close> on a value that is not an array is a \<^verbatim>\<open>TypeError\<close>.
\<close>

definition populateFilters_part000 :: "(real \<Rightarrow> string) \<Rightarrow> dashboard \<Rightarrow> error + dashboard" where
  "populateFilters_part000 digits st =
     (case allIndicatorsData st of
        DataArray recs \<Rightarrow>
          (let years = yearsOf digits recs;
               yearFromSelect = appendYears digits years (yearFromOptions st, yearFromFilter st);
               yearToSelect = appendYears digits years (yearToOptions st, yearToFilter st);
               (yearFromSelect, yearToSelect) =
                 (if length years > 0
                  then (setValue (toString digits (years ! 0)) yearFromSelect,
                        setValue (toString digits (years ! (length years - 1))) yearToSelect)
                  else (yearFromSelect, yearToSelect))
           in Inr (st\<lparr>yearFromOptions := fst yearFromSelect,
                       yearFromFilter := snd yearFromSelect,
                       yearToOptions := fst yearToSelect,
                       yearToFilter := snd yearToSelect\<rparr>))
      | _ \<Rightarrow> Inl TypeError)"

definition populateFilters_part001 :: "(real \<Rightarrow> string) \<Rightarrow> dashboard \<Rightarrow> error + dashboard" where
  "populateFilters_part001 digits st =
     (case allIndicatorsData st of
        DataArray recs \<Rightarrow>
          (let years = yearsOf digits recs;
               yearSelect = appendYears digits years (yearOptions st, yearFilter st)
           in Inr (st\<lparr>yearOptions := fst yearSelect, yearFilter := snd yearSelect\<rparr>))
      | _ \<Rightarrow> Inl TypeError)"

text \<open>
  \<^verbatim>\<open>script.js\<close> does not look at the data for its years: the list and the two
  defaults are written out in the source.
\<close>

definition years_script :: "jsval list" where
  "years_script = map (\<lambda>n. JNum (Fin n)) [2015, 2016, 2017, 2018, 2019, 2020, 2021, 2022]"

definition populateFilters_script :: "(real \<Rightarrow> string) \<Rightarrow> dashboard \<Rightarrow> error + dashboard" where
  "populateFilters_script digits st =
     (case allIndicatorsData st of
        DataArray recs \<Rightarrow>
          (let yearFromSelect =
                 appendYears digits years_script (yearFromOptions st, yearFromFilter st);
               yearToSelect =
                 appendYears digits years_script (yearToOptions st, yearToFilter st);
               yearFromSelect = setValue ''2015'' yearFromSelect;
               yearToSelect = setValue ''2022'' yearToSelect
           in Inr (st\<lparr>yearFromOptions := fst yearFromSelect,
                       yearFromFilter := snd yearFromSelect,
                       yearToOptions := fst yearToSelect,
                       yearToFilter := snd yearToSelect\<rparr>))
      | _ \<Rightarrow> Inl TypeError)"

text \<open>The whole number a year stands for, when it is one.\<close>

fun yearNat :: "jsval \<Rightarrow> nat" where
  "yearNat (JNum (Fin x)) = nat \<lfloor>x\<rfloor>"
| "yearNat _ = 0"

section \<open>The filter contract in the words of the specification\<close>

text \<open>
  The predicates of the specification, one for each dimension: a record is kept iff
  the field of the filter is empty or the record matches it. A year of the filter is
  the number \<^verbatim>\<open>parseInt\<close> reads from the field; the exact-year test compares numbers
  without conversion. These definitions follow the specification, not the scripts;
  the scripts are compared with them below.
\<close>

definition spec_country :: "filters \<Rightarrow> datapoint \<Rightarrow> bool" where
  "spec_country fs r =
     (case country fs of None \<Rightarrow> True | Some c \<Rightarrow> c = [] \<or> d_country r = JStr c)"

definition spec_indicator :: "filters \<Rightarrow> datapoint \<Rightarrow> bool" where
  "spec_indicator fs r =
     (case indicator fs of None \<Rightarrow> True | Some i \<Rightarrow> i = [] \<or> d_indicator r = JStr i)"

definition spec_yearRange :: "filters \<Rightarrow> datapoint \<Rightarrow> bool" where
  "spec_yearRange fs r =
     ((case yearFrom fs of None \<Rightarrow> True | Some a \<Rightarrow> a = [] \<or> js_ge (d_year r) (parseInt a)) \<and>
      (case yearTo fs of None \<Rightarrow> True | Some b \<Rightarrow> b = [] \<or> js_le (d_year r) (parseInt b)))"

definition spec_yearExact :: "filters \<Rightarrow> datapoint \<Rightarrow> bool" where
  "spec_yearExact fs r =
     (case year fs of None \<Rightarrow> True | Some y \<Rightarrow> y = [] \<or> strictEq_num (d_year r) (parseInt y))"

definition spec_layer :: "filters \<Rightarrow> datapoint \<Rightarrow> bool" where
  "spec_layer fs r =
     (case layer fs of None \<Rightarrow> True | Some l \<Rightarrow> l = [] \<or> l = ''All'' \<or> d_layer r = JStr l)"

text \<open>The conjunctions the three scripts are compared with.\<close>

definition spec_keep_range :: "filters \<Rightarrow> datapoint \<Rightarrow> bool" where
  "spec_keep_range fs r \<longleftrightarrow>
     spec_country fs r \<and> spec_indicator fs r \<and> spec_yearRange fs r \<and> hasValue r"

definition spec_keep_range_layer :: "filters \<Rightarrow> datapoint \<Rightarrow> bool" where
  "spec_keep_range_layer fs r \<longleftrightarrow>
     spec_country fs r \<and> spec_indicator fs r \<and> spec_yearRange fs r \<and> hasValue r \<and>
     spec_layer fs r"

definition spec_keep_exact :: "filters \<Rightarrow> datapoint \<Rightarrow> bool" where
  "spec_keep_exact fs r \<longleftrightarrow>
     spec_country fs r \<and> spec_indicator fs r \<and> spec_yearExact fs r \<and> hasValue r"

fun spec_keep :: "script \<Rightarrow> filters \<Rightarrow> datapoint \<Rightarrow> bool" where
  "spec_keep Script_js = spec_keep_range"
| "spec_keep Part_000 = spec_keep_range_layer"
| "spec_keep Part_001 = spec_keep_exact"

text \<open>The range check exists in the two range scripts only.\<close>

fun checksRange :: "script \<Rightarrow> bool" where
  "checksRange Part_001 = False"
| "checksRange _ = True"

text \<open>The table each script draws for a non-empty array of rows.\<close>

fun previewTable :: "script \<Rightarrow> datapoint list \<Rightarrow> preview" where
  "previewTable Script_js rows = PreviewTable (take 10 rows) None"
| "previewTable Part_000 rows = PreviewTable rows None"
| "previewTable Part_001 rows =
     PreviewTable (take maxPreviewRows rows)
       (if length rows > maxPreviewRows then Some (maxPreviewRows, length rows) else None)"

text \<open>
  The state after a run that reaches the end of \<^verbatim>\<open>applyFilters\<close> with the array
  \<open>out\<close>; \<open>table\<close> is the table the script draws for a non-empty array.
\<close>

definition rendered ::
  "(datapoint list \<Rightarrow> preview) \<Rightarrow> datapoint list \<Rightarrow> dashboard \<Rightarrow> dashboard" where
  "rendered table out st =
     st\<lparr>filteredData := out,
        summary := showNat (length out) @ '' points after filter'',
        previewContainer := (if out = [] then NoDataMatches else table out)\<rparr>"

section \<open>Example inputs\<close>

text \<open>The page before the data set is loaded: both globals are empty arrays.\<close>

definition initialState :: dashboard where
  "initialState =
     \<lparr>allIndicatorsData = DataArray [], filteredData = [],
      countryFilter = [], indicatorFilter = [], yearFromFilter = [], yearToFilter = [],
      layerFilter = [], yearFilter = [], yearFromOptions = [], yearToOptions = [],
      yearOptions = [], summary = [], previewContainer = PreviewInitial, alerts = []\<rparr>"

definition point :: "string \<Rightarrow> jsval \<Rightarrow> jsval \<Rightarrow> string \<Rightarrow> datapoint" where
  "point c y v l =
     \<lparr>d_indicator = JStr ''Energy availability'', d_country = JStr c, d_year = y,
      d_value = v, d_category = JStr ''Foundational Capabilities'', d_layer = JStr l,
      d_unit = JStr ''kWh per capita''\<rparr>"

text \<open>The two records of the first example of the specification, and a record with no usable number.\<close>

definition albania2019 :: datapoint where
  "albania2019 = point ''Albania'' (JNum (Fin 2019)) (JNum (Fin 5)) ''Basic''"

definition serbia2019 :: datapoint where
  "serbia2019 = point ''Serbia'' (JNum (Fin 2019)) (JNum (Fin 7)) ''Intermediate''"

definition albaniaNaN :: datapoint where
  "albaniaNaN = point ''Albania'' (JNum (Fin 2020)) (JNum NaN) ''Basic''"

definition noFilters :: filters where
  "noFilters =
     \<lparr>country = None, indicator = None, yearFrom = None, yearTo = None, layer = None,
      year = None\<rparr>"

text \<open>A record with no \<^verbatim>\<open>year\<close> property, and one whose year is \<^verbatim>\<open>null\<close>.\<close>

definition noYear :: datapoint where
  "noYear = point ''Kosovo'' JUndefined (JNum (Fin 3)) ''Basic''"

definition nullYear :: datapoint where
  "nullYear = point ''Montenegro'' JNull (JNum (Fin 4)) ''Basic''"

text \<open>
  A loaded data set with the years 2019, 2010, \<^verbatim>\<open>null\<close> and 2019 again, one with the
  years 2019.5 and 2010, and one whose years have three and four digits. The digits
  of 2019.5 are those that \<^verbatim>\<open>String(2019.5)\<close> gives.
\<close>

definition yearSample :: "datapoint list" where
  "yearSample =
     [point ''Albania'' (JNum (Fin 2019)) (JNum (Fin 5)) ''Basic'',
      point ''Serbia'' (JNum (Fin 2010)) (JNum (Fin 7)) ''Basic'',
      point ''Kosovo'' JNull (JNum (Fin 3)) ''Basic'',
      point ''Albania'' (JNum (Fin 2019)) (JNum (Fin 8)) ''Intermediate'']"

definition yearSampleState :: dashboard where
  "yearSampleState = initialState\<lparr>allIndicatorsData := DataArray yearSample\<rparr>"

definition fractionState :: dashboard where
  "fractionState =
     initialState\<lparr>allIndicatorsData := DataArray
       [point ''Albania'' (JNum (Fin 2019.5)) (JNum (Fin 1)) ''Basic'',
        point ''Albania'' (JNum (Fin 2010)) (JNum (Fin 2)) ''Basic'']\<rparr>"

definition sampleDigits :: "real \<Rightarrow> string" where
  "sampleDigits x = (if x = 2019.5 then ''2019.5'' else [])"

definition mixedDigitsState :: dashboard where
  "mixedDigitsState =
     initialState\<lparr>allIndicatorsData := DataArray
       [point ''Albania'' (JNum (Fin 900)) (JNum (Fin 1)) ''Basic'',
        point ''Albania'' (JNum (Fin 2015)) (JNum (Fin 2)) ''Basic'']\<rparr>"

text \<open>The range of the third example of the specification: from 2020 to 2015.\<close>

definition badRange :: filters where
  "badRange = noFilters\<lparr>yearFrom := Some ''2020'', yearTo := Some ''2015''\<rparr>"

section \<open>The scripts against the contract\<close>

lemma filterByCountry_eq: "filterByCountry fs xs = filter (spec_country fs) xs"
  by (simp add: filterByCountry_def spec_country_def[abs_def] split: option.splits)

lemma filterByIndicator_eq: "filterByIndicator fs xs = filter (spec_indicator fs) xs"
  by (simp add: filterByIndicator_def spec_indicator_def[abs_def] split: option.splits)

lemma filterByYearFrom_To_eq:
  "filterByYearTo fs (filterByYearFrom fs xs) = filter (spec_yearRange fs) xs"
  by (auto simp add: filterByYearFrom_def filterByYearTo_def spec_yearRange_def[abs_def]
      split: option.splits intro: filter_cong)

lemma filterByYear_eq: "filterByYear fs xs = filter (spec_yearExact fs) xs"
  by (simp add: filterByYear_def spec_yearExact_def[abs_def] split: option.splits)

lemma filterByLayer_eq: "filterByLayer fs xs = filter (spec_layer fs) xs"
  by (simp add: filterByLayer_def spec_layer_def[abs_def] split: option.splits)

lemma hasValue_hasLocaleString: "hasValue d \<Longrightarrow> hasLocaleString d"
  by (simp add: hasValue_def hasLocaleString_def)

lemma list_all_hasLocaleString:
  "list_all hasValue xs \<Longrightarrow> list_all hasLocaleString xs"
  by (induction xs) (simp_all add: hasValue_hasLocaleString)

lemma list_all_take: "list_all P xs \<Longrightarrow> list_all P (take n xs)"
  by (auto simp: list_all_iff dest: in_set_takeD)

lemma renderPreview_ok:
  "list_all hasLocaleString rows \<Longrightarrow>
   renderPreview rows st =
     (None, st\<lparr>previewContainer := (if rows = [] then NoDataMatches else PreviewTable rows None)\<rparr>)"
  by (simp add: renderPreview_def)

lemma renderPreview_capped_ok:
  "list_all hasLocaleString rows \<Longrightarrow>
   renderPreview_capped rows st =
     (None, st\<lparr>previewContainer :=
        (if rows = [] then NoDataMatches
         else PreviewTable (take maxPreviewRows rows)
                (if length rows > maxPreviewRows then Some (maxPreviewRows, length rows)
                 else None))\<rparr>)"
  by (simp add: renderPreview_capped_def list_all_take)


lemma renderResults_script_ok:
  "list_all hasValue (filteredData st) \<Longrightarrow>
   renderResults_script st = (None, rendered (previewTable Script_js) (filteredData st) st)"
  by (simp add: renderResults_script_def renderPreview_ok renderSummary_def rendered_def
      list_all_hasLocaleString list_all_take)

lemma renderResults_part000_ok:
  "list_all hasValue (filteredData st) \<Longrightarrow>
   renderResults_part000 st = (None, rendered (previewTable Part_000) (filteredData st) st)"
  by (simp add: renderResults_part000_def renderPreview_ok renderSummary_def rendered_def
      list_all_hasLocaleString)

lemma renderResults_part001_ok:
  "list_all hasValue (filteredData st) \<Longrightarrow>
   renderResults_part001 st = (None, rendered (previewTable Part_001) (filteredData st) st)"
  by (simp add: renderResults_part001_def renderPreview_capped_ok renderSummary_def rendered_def
      list_all_hasLocaleString)


lemma rendered_filteredData [simp]: "filteredData (rendered t out st) = out"
  by (simp add: rendered_def)

lemma storeAndRender_ok:
  assumes "\<And>st. list_all hasValue (filteredData st) \<Longrightarrow>
             render st = (None, rendered t (filteredData st) st)"
    and "list_all hasValue out"
  shows "storeAndRender render out st = (Inr out, rendered t out st)"
proof -
  have "render (st\<lparr>filteredData := out\<rparr>) = (None, rendered t out (st\<lparr>filteredData := out\<rparr>))"
    using assms(1) [of "st\<lparr>filteredData := out\<rparr>"] assms(2) by simp
  then show ?thesis
    by (simp add: storeAndRender_def rendered_def)
qed

lemma list_all_filter_imp: "(\<And>r. P r \<Longrightarrow> Q r) \<Longrightarrow> list_all Q (filter P xs)"
  by (simp add: list_all_iff)

lemma hasValue_keep: "list_all hasValue (filter (spec_keep v fs) xs)"
  by (rule list_all_filter_imp, cases v)
     (simp_all add: spec_keep_range_def spec_keep_range_layer_def spec_keep_exact_def)

lemma pipeline_script:
  "filter hasValue (filterByYearTo fs (filterByYearFrom fs
      (filterByIndicator fs (filterByCountry fs xs)))) = filter (spec_keep_range fs) xs"
  by (auto simp add: filterByYearFrom_To_eq filterByIndicator_eq filterByCountry_eq
      spec_keep_range_def intro: filter_cong)

lemma pipeline_part000:
  "filterByLayer fs (filter hasValue (filterByYearTo fs (filterByYearFrom fs
      (filterByIndicator fs (filterByCountry fs xs))))) = filter (spec_keep_range_layer fs) xs"
  by (auto simp add: filterByYearFrom_To_eq filterByIndicator_eq filterByCountry_eq
      filterByLayer_eq spec_keep_range_layer_def intro: filter_cong)

lemma pipeline_part001:
  "filter hasValue (filterByYear fs (filterByIndicator fs (filterByCountry fs xs))) =
   filter (spec_keep_exact fs) xs"
  by (auto simp add: filterByYear_eq filterByIndicator_eq filterByCountry_eq
      spec_keep_exact_def intro: filter_cong)

lemma applyFilters_eq:
  "applyFilters v st a fa =
     (let data = dataParam st a; fs = filtersOf v st fa;
          out = filter (spec_keep v fs) (arrayOf data)
      in if noDataAvailable data then (Inl NoData, showNoData st)
         else if checksRange v \<and> yearRangeInvalid fs
         then (Inl ValidationError, alert ''From year must be less than or equal to To year'' st)
         else (Inr out, rendered (previewTable v) out st))"
proof (cases v)
  case Script_js
  have "storeAndRender renderResults_script (filter (spec_keep Script_js fs) xs) st =
        (Inr (filter (spec_keep Script_js fs) xs),
         rendered (previewTable Script_js) (filter (spec_keep Script_js fs) xs) st)" for fs xs
    by (rule storeAndRender_ok [OF renderResults_script_ok hasValue_keep])
  then show ?thesis
    unfolding Script_js applyFilters.simps applyFilters_script_def Let_def pipeline_script
    by simp
next
  case Part_000
  have "storeAndRender renderResults_part000 (filter (spec_keep Part_000 fs) xs) st =
        (Inr (filter (spec_keep Part_000 fs) xs),
         rendered (previewTable Part_000) (filter (spec_keep Part_000 fs) xs) st)" for fs xs
    by (rule storeAndRender_ok [OF renderResults_part000_ok hasValue_keep])
  then show ?thesis
    unfolding Part_000 applyFilters.simps applyFilters_part000_def Let_def pipeline_part000
    by simp
next
  case Part_001
  have "storeAndRender renderResults_part001 (filter (spec_keep Part_001 fs) xs) st =
        (Inr (filter (spec_keep Part_001 fs) xs),
         rendered (previewTable Part_001) (filter (spec_keep Part_001 fs) xs) st)" for fs xs
    by (rule storeAndRender_ok [OF renderResults_part001_ok hasValue_keep])
  then show ?thesis
    unfolding Part_001 applyFilters.simps applyFilters_part001_def Let_def pipeline_part001
    by simp
qed

lemmas eval_defs =
  applyFilters_script_def applyFilters_part000_def applyFilters_part001_def
  dataParam_def filtersParam_def filtersParam_part001_def
  filterByCountry_def filterByIndicator_def filterByYearFrom_def filterByYearTo_def
  filterByLayer_def filterByYear_def yearRangeInvalid_def hasValue_def isNaN_def
  storeAndRender_def renderResults_script_def renderResults_part000_def
  renderResults_part001_def renderPreview_def renderPreview_capped_def renderSummary_def
  hasLocaleString_def maxPreviewRows_def showNoData_def alert_def
  js_ge_def js_le_def js_gt_def strictEq_num_def
  parseInt_def isWhiteSpace_def isDigit_def digitVal_def digitsValue_def
  point_def noFilters_def initialState_def albania2019_def serbia2019_def Let_def

lemma applyFilters_success:
  assumes "fst (applyFilters v st a fa) = Inr out"
  shows "\<not> noDataAvailable (dataParam st a)"
    and "\<not> (checksRange v \<and> yearRangeInvalid (filtersOf v st fa))"
    and "out = filter (spec_keep v (filtersOf v st fa)) (arrayOf (dataParam st a))"
    and "snd (applyFilters v st a fa) = rendered (previewTable v) out st"
  using assms by (auto simp: applyFilters_eq Let_def split: if_splits)

text \<open>Filter settings that are passed are used as they are.\<close>

lemma filtersParam_Some [simp]:
  "filtersParam st (Some fs) = fs" "filtersParam_part001 st (Some fs) = fs"
  by (simp_all add: filtersParam_def filtersParam_part001_def)

lemma filtersOf_Some [simp]: "filtersOf v st (Some fs) = fs"
  by (cases v) (simp_all add: filtersParam_def filtersParam_part001_def)

lemma isSet_iff: "isSet x \<longleftrightarrow> (\<exists>s. x = Some s \<and> s \<noteq> [])"
  by (cases x) simp_all

text \<open>A run on a non-empty array with no invalid range always reaches its end.\<close>

lemma applyFilters_succeeds:
  assumes "\<not> noDataAvailable (dataParam st a)"
    and "\<not> (checksRange v \<and> yearRangeInvalid (filtersOf v st fa))"
  shows "\<exists>out. fst (applyFilters v st a fa) = Inr out"
  using assms by (simp add: applyFilters_eq Let_def)

lemma noDataAvailable_iff:
  "noDataAvailable d \<longleftrightarrow> d \<in> {DataUndefined, DataNull, DataOther, DataArray []}"
  by (cases d) auto

text \<open>
  Claim C5. When the records the call works on (the \<^verbatim>\<open>data\<close> argument, or the
  loaded data set when the argument is \<^verbatim>\<open>undefined\<close>) are \<^verbatim>\<open>undefined\<close>, \<^verbatim>\<open>null\<close>,
  not an array, or an empty array, every script takes the no-data exit, whatever the
  filter settings: the outcome is \<open>NoData\<close>, which is neither \<open>ValidationError\<close> nor a
  result; the stored result is not replaced, and the preview shows the no-data message
  instead of a table.
\<close>

theorem applyFilters_noData:
  assumes "dataParam st a \<in> {DataUndefined, DataNull, DataOther, DataArray []}"
  shows "applyFilters v st a fa = (Inl NoData, showNoData st) \<and>
         fst (applyFilters v st a fa) \<noteq> Inl ValidationError \<and>
         (\<forall>out. fst (applyFilters v st a fa) \<noteq> Inr out) \<and>
         filteredData (showNoData st) = filteredData st \<and>
         previewContainer (showNoData st) = NoDataAvailable \<and>
         summary (showNoData st) = ''No data available''"
proof -
  from assms have "noDataAvailable (dataParam st a)"
    by (simp only: noDataAvailable_iff)
  then have "applyFilters v st a fa = (Inl NoData, showNoData st)"
    by (simp add: applyFilters_eq)
  then show ?thesis
    by (simp add: showNoData_def)
qed

theorem applyFilters_noData_witness:
  "dataParam initialState DataUndefined \<in> {DataUndefined, DataNull, DataOther, DataArray []} \<and>
   applyFilters Script_js initialState DataUndefined None = (Inl NoData, showNoData initialState) \<and>
   previewContainer (showNoData initialState) = NoDataAvailable"
  using applyFilters_noData [of initialState DataUndefined Script_js None]
  by (simp add: dataParam_def initialState_def)

text \<open>
  Claim C6. When a run succeeds, the array it stores as \<^verbatim>\<open>filteredData\<close> is a
  subsequence of the input records: its elements come from the input in the input's
  order, and it is no longer than the input.
\<close>

theorem applyFilters_subsequence:
  assumes "dataParam st a = DataArray recs"
    and "fst (applyFilters v st a fa) = Inr out"
  shows "subseq out recs \<and> set out \<subseteq> set recs \<and> length out \<le> length recs \<and>
         filteredData (snd (applyFilters v st a fa)) = out"
proof -
  have "out = filter (spec_keep v (filtersOf v st fa)) recs"
    using applyFilters_success(3) [OF assms(2)] assms(1) by simp
  moreover have "filteredData (snd (applyFilters v st a fa)) = out"
    using applyFilters_success(4) [OF assms(2)] by simp
  ultimately show ?thesis
    by simp
qed

theorem applyFilters_subsequence_witness:
  "subseq [albania2019] [albania2019, serbia2019] \<and>
   filteredData (snd (applyFilters Script_js initialState (DataArray [albania2019, serbia2019])
     (Some (noFilters\<lparr>country := Some ''Albania''\<rparr>)))) = [albania2019]"
proof -
  have "fst (applyFilters Script_js initialState (DataArray [albania2019, serbia2019])
          (Some (noFilters\<lparr>country := Some ''Albania''\<rparr>))) = Inr [albania2019]"
    by (simp add: eval_defs)
  from applyFilters_subsequence [OF _ this, of "[albania2019, serbia2019]"]
  show ?thesis
    by (simp add: dataParam_def)
qed

text \<open>
  Claim C4. When a run succeeds, no record of the result has a value that is \<^verbatim>\<open>null\<close>,
  \<^verbatim>\<open>undefined\<close> or \<^verbatim>\<open>NaN\<close> (or that \<^verbatim>\<open>isNaN\<close> rejects), in every script and for
  every setting of the filters, the empty one included.
\<close>

theorem applyFilters_drops_missing_values:
  assumes "fst (applyFilters v st a fa) = Inr out"
  shows "\<forall>r\<in>set out. d_value r \<noteq> JNull \<and> d_value r \<noteq> JUndefined \<and> d_value r \<noteq> JNum NaN \<and>
                      \<not> isNaN (d_value r)"
proof
  fix r assume "r \<in> set out"
  then have "spec_keep v (filtersOf v st fa) r"
    using applyFilters_success(3) [OF assms] by simp
  then have "hasValue r"
    by (cases v) (simp_all add: spec_keep_range_def spec_keep_range_layer_def spec_keep_exact_def)
  then show "d_value r \<noteq> JNull \<and> d_value r \<noteq> JUndefined \<and> d_value r \<noteq> JNum NaN \<and>
             \<not> isNaN (d_value r)"
    by (auto simp: hasValue_def isNaN_def)
qed

theorem applyFilters_drops_missing_values_witness:
  "fst (applyFilters Part_001 initialState (DataArray [albaniaNaN, serbia2019]) (Some noFilters))
     = Inr [serbia2019] \<and>
   d_value serbia2019 \<noteq> JNull \<and> d_value serbia2019 \<noteq> JUndefined \<and>
   d_value serbia2019 \<noteq> JNum NaN \<and> \<not> isNaN (d_value serbia2019)"
proof -
  have "fst (applyFilters Part_001 initialState (DataArray [albaniaNaN, serbia2019])
          (Some noFilters)) = Inr [serbia2019]"
    by (simp add: eval_defs albaniaNaN_def)
  from this applyFilters_drops_missing_values [OF this] show ?thesis
    by simp
qed

lemma dataParam_preserved:
  "allIndicatorsData st' = allIndicatorsData st \<Longrightarrow> dataParam st' a = dataParam st a"
  by (cases a) (simp_all add: dataParam_def)

lemma filtersOf_preserved:
  assumes "countryFilter st' = countryFilter st" "indicatorFilter st' = indicatorFilter st"
    "yearFromFilter st' = yearFromFilter st" "yearToFilter st' = yearToFilter st"
    "layerFilter st' = layerFilter st" "yearFilter st' = yearFilter st"
  shows "filtersOf v st' fa = filtersOf v st fa"
  using assms
  by (cases v; cases fa)
     (simp_all add: filtersParam_def filtersParam_part001_def getFilters_def getFilters_part001_def)

lemma applyFilters_reads:
  assumes "dataParam st2 a = dataParam st1 a" and "filtersOf v st2 fa = filtersOf v st1 fa"
  shows "fst (applyFilters v st2 a fa) = fst (applyFilters v st1 a fa)"
  by (simp add: applyFilters_eq Let_def assms)

lemma applyFilters_keeps_inputs:
  "allIndicatorsData (snd (applyFilters v st a fa)) = allIndicatorsData st \<and>
   countryFilter (snd (applyFilters v st a fa)) = countryFilter st \<and>
   indicatorFilter (snd (applyFilters v st a fa)) = indicatorFilter st \<and>
   yearFromFilter (snd (applyFilters v st a fa)) = yearFromFilter st \<and>
   yearToFilter (snd (applyFilters v st a fa)) = yearToFilter st \<and>
   layerFilter (snd (applyFilters v st a fa)) = layerFilter st \<and>
   yearFilter (snd (applyFilters v st a fa)) = yearFilter st"
  by (simp add: applyFilters_eq Let_def showNoData_def alert_def rendered_def)



text \<open>
  Claim C7. A run reads its records and its filter settings and nothing else: called
  again with the same arguments in the state the first call left, it ends the same
  way with the same array; called on the same records and settings in any two states,
  it gives the same outcome. No run changes the loaded data set. Records are values
  here, and no statement of the scripts assigns to a record or to the input array.
\<close>

theorem applyFilters_deterministic:
  "fst (applyFilters v (snd (applyFilters v st a fa)) a fa) = fst (applyFilters v st a fa) \<and>
   allIndicatorsData (snd (applyFilters v st a fa)) = allIndicatorsData st \<and>
   fst (applyFilters v st1 (DataArray recs) (Some fs)) =
     fst (applyFilters v st2 (DataArray recs) (Some fs))"
proof -
  note keep = applyFilters_keeps_inputs [of v st a fa]
  have "dataParam (snd (applyFilters v st a fa)) a = dataParam st a"
    by (rule dataParam_preserved) (simp add: keep)
  moreover have "filtersOf v (snd (applyFilters v st a fa)) fa = filtersOf v st fa"
    by (rule filtersOf_preserved) (simp_all add: keep)
  ultimately have again:
    "fst (applyFilters v (snd (applyFilters v st a fa)) a fa) = fst (applyFilters v st a fa)"
    by (rule applyFilters_reads)
  have "dataParam st1 (DataArray recs) = dataParam st2 (DataArray recs)"
    by (simp add: dataParam_def)
  moreover have "filtersOf v st1 (Some fs) = filtersOf v st2 (Some fs)"
    by (cases v) (simp_all add: filtersParam_def filtersParam_part001_def)
  ultimately have "fst (applyFilters v st1 (DataArray recs) (Some fs)) =
      fst (applyFilters v st2 (DataArray recs) (Some fs))"
    by (rule applyFilters_reads)
  with again keep show ?thesis
    by simp
qed


theorem applyFilters_deterministic_witness:
  "fst (applyFilters Part_000
          (snd (applyFilters Part_000 initialState (DataArray [albania2019, serbia2019])
             (Some noFilters)))
          (DataArray [albania2019, serbia2019]) (Some noFilters)) =
     fst (applyFilters Part_000 initialState (DataArray [albania2019, serbia2019])
            (Some noFilters)) \<and>
   allIndicatorsData (snd (applyFilters Part_000 initialState
      (DataArray [albania2019, serbia2019]) (Some noFilters))) = allIndicatorsData initialState"
  using applyFilters_deterministic [where v = Part_000 and st = initialState
      and a = "DataArray [albania2019, serbia2019]" and fa = "Some noFilters"]
  by blast

text \<open>
  Years written in decimal: \<^verbatim>\<open>parseInt\<close> reads back the number, so for such years the
  range is invalid exactly when the first year is the greater one.
\<close>

lemma digit_cases: "d < 10 \<Longrightarrow> d \<in> {0, 1, 2, 3, 4, 5, 6, 7, 8, 9 :: nat}"
  by auto

lemma digitVal_digitChar: "d < 10 \<Longrightarrow> digitVal (digitChar d) = Some d"
  by (drule digit_cases) (auto simp: digitVal_def digitChar_def)

lemma isDigit_digitChar: "d < 10 \<Longrightarrow> isDigit 10 (digitChar d)"
  by (simp add: isDigit_def digitVal_digitChar)

lemma digitChar_plain:
  "d < 10 \<Longrightarrow> \<not> isWhiteSpace (digitChar d) \<and> digitChar d \<noteq> CHR ''-'' \<and> digitChar d \<noteq> CHR ''+''
     \<and> digitChar d \<noteq> CHR ''x'' \<and> digitChar d \<noteq> CHR ''X''"
  by (drule digit_cases) (auto simp: isWhiteSpace_def digitChar_def)

lemma showNat_digits: "c \<in> set (showNat n) \<Longrightarrow> \<exists>d<10. c = digitChar d"
proof (induction n rule: showNat.induct)
  case (1 n)
  show ?case
  proof (cases "n < 10")
    case True
    with "1.prems" show ?thesis
      by (auto simp: showNat.simps [of n])
  next
    case False
    with "1.prems" have "c \<in> set (showNat (n div 10)) \<or> c = digitChar (n mod 10)"
      by (auto simp: showNat.simps [of n])
    then show ?thesis
    proof
      assume "c \<in> set (showNat (n div 10))"
      with False "1.IH" show ?thesis by simp
    next
      assume "c = digitChar (n mod 10)"
      moreover have "n mod 10 < 10" by simp
      ultimately show ?thesis by blast
    qed
  qed
qed

lemma showNat_nonempty: "showNat n \<noteq> []"
  by (simp add: showNat.simps [of n])

lemma digitsValue_snoc:
  "digitsValue R (ds @ [c]) =
     digitsValue R ds * R + (case digitVal c of Some d \<Rightarrow> d | None \<Rightarrow> 0)"
  by (simp add: digitsValue_def)

lemma digitsValue_showNat: "digitsValue 10 (showNat n) = n"
proof (induction n rule: showNat.induct)
  case (1 n)
  show ?case
  proof (cases "n < 10")
    case True
    then show ?thesis
      by (simp add: showNat.simps [of n] digitsValue_def digitVal_digitChar)
  next
    case False
    with "1.IH" have "digitsValue 10 (showNat (n div 10)) = n div 10"
      by simp
    with False show ?thesis
      by (simp add: showNat.simps [of n] digitsValue_snoc digitVal_digitChar)
  qed
qed

lemma parseInt_showNat: "parseInt (showNat n) = Fin (real n)"
proof -
  obtain c cs where s: "showNat n = c # cs"
    using showNat_nonempty [of n] by (cases "showNat n") auto
  have plain: "\<not> isWhiteSpace x \<and> x \<noteq> CHR ''-'' \<and> x \<noteq> CHR ''+'' \<and> x \<noteq> CHR ''x'' \<and> x \<noteq> CHR ''X''
      \<and> isDigit 10 x" if "x \<in> set (c # cs)" for x
  proof -
    from that have "x \<in> set (showNat n)"
      by (simp only: s)
    then obtain d where d: "d < 10" "x = digitChar d"
      using showNat_digits [of x n] by auto
    show ?thesis
      unfolding d(2) using digitChar_plain [OF d(1)] isDigit_digitChar [OF d(1)] by simp
  qed
  have c: "\<not> isWhiteSpace c" "c \<noteq> CHR ''-''" "c \<noteq> CHR ''+''"
    using plain [of c] by simp_all
  have drop: "dropWhile isWhiteSpace (c # cs) = c # cs"
    using c(1) by simp
  have nohex: "\<not> (take 2 (c # cs) = ''0x'' \<or> take 2 (c # cs) = ''0X'')"
  proof (cases cs)
    case Nil
    then show ?thesis by simp
  next
    case (Cons d ds)
    then have "d \<noteq> CHR ''x'' \<and> d \<noteq> CHR ''X''"
      using plain [of d] by simp
    with Cons show ?thesis by simp
  qed
  have "\<forall>x\<in>set (c # cs). isDigit 10 x"
    using plain by blast
  then have all: "takeWhile (isDigit 10) (c # cs) = c # cs"
    by (simp only: takeWhile_eq_all_conv)
  have val: "digitsValue 10 (c # cs) = n"
    using digitsValue_showNat [of n] by (simp only: s)
  have "parseInt (c # cs) =
      (if takeWhile (isDigit 10) (c # cs) = [] then NaN
       else Fin (1 * real (digitsValue 10 (takeWhile (isDigit 10) (c # cs)))))"
    unfolding parseInt_def Let_def drop
    using c(2,3) nohex by (simp only: list.sel if_False if_True simp_thms list.simps)
  then show ?thesis
    unfolding s all val by simp
qed

lemma js_gt_showNat: "js_gt (parseInt (showNat a)) (parseInt (showNat b)) \<longleftrightarrow> b < a"
  by (simp add: parseInt_showNat js_gt_def split: bool.splits)

lemma yearRangeInvalid_showNat:
  "yearRangeInvalid (fs\<lparr>yearFrom := Some (showNat a), yearTo := Some (showNat b)\<rparr>) \<longleftrightarrow> b < a"
  by (simp add: yearRangeInvalid_def js_gt_showNat showNat_nonempty)

text \<open>
  Claim C1, as amended. In the two range scripts, on a non-empty array of records, when
  \<^verbatim>\<open>yearFrom\<close> and \<^verbatim>\<open>yearTo\<close> are both set and the first parses to a greater number than
  the second, the run ends with \<open>ValidationError\<close> after the alert and produces no
  result; \<^verbatim>\<open>filteredData\<close>, the summary and the preview stay as they were.
\<close>

theorem applyFilters_invalid_range:
  assumes "v \<in> {Script_js, Part_000}"
    and "dataParam st a = DataArray recs" and "recs \<noteq> []"
    and "yearFrom (filtersOf v st fa) = Some yf" and "yf \<noteq> []"
    and "yearTo (filtersOf v st fa) = Some yt" and "yt \<noteq> []"
    and "js_gt (parseInt yf) (parseInt yt)"
  shows "applyFilters v st a fa =
           (Inl ValidationError, alert ''From year must be less than or equal to To year'' st) \<and>
         (\<forall>out. fst (applyFilters v st a fa) \<noteq> Inr out) \<and>
         filteredData (snd (applyFilters v st a fa)) = filteredData st \<and>
         summary (snd (applyFilters v st a fa)) = summary st \<and>
         previewContainer (snd (applyFilters v st a fa)) = previewContainer st"
proof -
  have "checksRange v"
    using assms(1) by auto
  moreover have "yearRangeInvalid (filtersOf v st fa)"
    using assms(4-8) by (simp add: yearRangeInvalid_def)
  moreover have "\<not> noDataAvailable (dataParam st a)"
    using assms(2,3) by simp
  ultimately have "applyFilters v st a fa =
      (Inl ValidationError, alert ''From year must be less than or equal to To year'' st)"
    by (simp add: applyFilters_eq Let_def)
  then show ?thesis
    by (simp add: alert_def)
qed

lemma parse_2020_2015: "js_gt (parseInt ''2020'') (parseInt ''2015'')"
  by (simp add: eval_defs)

theorem applyFilters_invalid_range_witness:
  "js_gt (parseInt ''2020'') (parseInt ''2015'') \<and>
   applyFilters Part_000 initialState (DataArray [albania2019, serbia2019]) (Some badRange) =
     (Inl ValidationError,
      alert ''From year must be less than or equal to To year'' initialState) \<and>
   filteredData (snd (applyFilters Part_000 initialState (DataArray [albania2019, serbia2019])
     (Some badRange))) = filteredData initialState"
proof -
  have v: "Part_000 \<in> {Script_js, Part_000}"
    by simp
  have d: "dataParam initialState (DataArray [albania2019, serbia2019]) =
      DataArray [albania2019, serbia2019]"
    by (simp add: dataParam_def)
  have ne: "[albania2019, serbia2019] \<noteq> []" "''2020'' \<noteq> []" "''2015'' \<noteq> []"
    by simp_all
  have yf: "yearFrom (filtersOf Part_000 initialState (Some badRange)) = Some ''2020''"
    and yt: "yearTo (filtersOf Part_000 initialState (Some badRange)) = Some ''2015''"
    by (simp_all add: filtersParam_def badRange_def noFilters_def)
  from applyFilters_invalid_range [OF v d ne(1) yf ne(2) yt ne(3) parse_2020_2015]
    parse_2020_2015
  show ?thesis
    by blast
qed

text \<open>
  Claim C1 as stated fails on an empty array of records: the no-data exit comes first,
  and the run ends with \<open>NoData\<close>, not with \<open>ValidationError\<close>.
\<close>

theorem applyFilters_invalid_range_empty_data:
  "yearFrom badRange = Some ''2020'' \<and> yearTo badRange = Some ''2015'' \<and>
   js_gt (parseInt ''2020'') (parseInt ''2015'') \<and>
   fst (applyFilters_script initialState (DataArray []) (Some badRange)) = Inl NoData \<and>
   fst (applyFilters_script initialState (DataArray []) (Some badRange)) \<noteq> Inl ValidationError \<and>
   fst (applyFilters_part000 initialState (DataArray []) (Some badRange)) = Inl NoData"
  by (simp add: eval_defs badRange_def)

lemma spec_layer_unset:
  "spec_layer (fs\<lparr>layer := Some ''All''\<rparr>) r" "spec_layer (fs\<lparr>layer := Some []\<rparr>) r"
  "spec_layer (fs\<lparr>layer := None\<rparr>) r"
  by (simp_all add: spec_layer_def)

lemma spec_keep_layer_update:
  "v \<noteq> Part_000 \<Longrightarrow> spec_keep v (fs\<lparr>layer := x\<rparr>) = spec_keep v fs"
  by (cases v)
     (simp_all add: fun_eq_iff spec_keep_range_def spec_keep_exact_def spec_country_def
        spec_indicator_def spec_yearRange_def spec_yearExact_def)

lemma spec_keep_part000_layer:
  "spec_keep_range_layer (fs\<lparr>layer := x\<rparr>) r \<longleftrightarrow>
     spec_keep_range_layer (fs\<lparr>layer := None\<rparr>) r \<and> spec_layer (fs\<lparr>layer := x\<rparr>) r"
  by (auto simp add: spec_keep_range_layer_def spec_country_def
        spec_indicator_def spec_yearRange_def spec_layer_def)

lemma yearRangeInvalid_layer_update [simp]:
  "yearRangeInvalid (fs\<lparr>layer := x\<rparr>) = yearRangeInvalid fs"
  by (simp add: yearRangeInvalid_def)

lemma spec_keep_layer_unset:
  assumes "x = Some ''All'' \<or> x = Some [] \<or> x = None"
  shows "spec_keep v (fs\<lparr>layer := x\<rparr>) = spec_keep v (fs\<lparr>layer := None\<rparr>)"
proof (cases "v = Part_000")
  case True
  have "spec_layer (fs\<lparr>layer := x\<rparr>) r" for r
    using assms by (auto simp: spec_layer_unset)
  then have "spec_keep_range_layer (fs\<lparr>layer := x\<rparr>) r =
      spec_keep_range_layer (fs\<lparr>layer := None\<rparr>) r" for r
    by (simp add: spec_keep_part000_layer [where x = x])
  with True show ?thesis
    by (simp add: fun_eq_iff)
next
  case False
  then show ?thesis
    by (simp add: spec_keep_layer_update)
qed

text \<open>
  Claim C2, as amended. In every script a layer of \<^verbatim>\<open>"All"\<close> and an empty layer give
  the same run as an absent layer. In \<^verbatim>\<open>script.js\<close> the layer block is an empty
  placeholder, so no layer changes the run. In the first unnamed script any other
  non-empty layer keeps, of the records the run without a layer keeps, exactly those
  whose layer is that string.
\<close>

theorem applyFilters_layer:
  "applyFilters v st a (Some (fs\<lparr>layer := Some ''All''\<rparr>)) =
     applyFilters v st a (Some (fs\<lparr>layer := None\<rparr>)) \<and>
   applyFilters v st a (Some (fs\<lparr>layer := Some []\<rparr>)) =
     applyFilters v st a (Some (fs\<lparr>layer := None\<rparr>)) \<and>
   applyFilters Script_js st a (Some (fs\<lparr>layer := x\<rparr>)) =
     applyFilters Script_js st a (Some (fs\<lparr>layer := None\<rparr>)) \<and>
   (l \<noteq> [] \<and> l \<noteq> ''All'' \<and>
    fst (applyFilters Part_000 st a (Some (fs\<lparr>layer := Some l\<rparr>))) = Inr out \<longrightarrow>
      (\<exists>out0. fst (applyFilters Part_000 st a (Some (fs\<lparr>layer := None\<rparr>))) = Inr out0 \<and>
              out = filter (\<lambda>r. d_layer r = JStr l) out0) \<and>
      (\<forall>r\<in>set out. d_layer r = JStr l))"
proof (intro conjI impI)
  show "applyFilters v st a (Some (fs\<lparr>layer := Some ''All''\<rparr>)) =
     applyFilters v st a (Some (fs\<lparr>layer := None\<rparr>))"
    by (simp add: applyFilters_eq Let_def spec_keep_layer_unset [of "Some ''All''"])
  show "applyFilters v st a (Some (fs\<lparr>layer := Some []\<rparr>)) =
     applyFilters v st a (Some (fs\<lparr>layer := None\<rparr>))"
    by (simp add: applyFilters_eq Let_def spec_keep_layer_unset [of "Some []"])
  show "applyFilters Script_js st a (Some (fs\<lparr>layer := x\<rparr>)) =
     applyFilters Script_js st a (Some (fs\<lparr>layer := None\<rparr>))"
    unfolding applyFilters_eq
    by (simp add: Let_def filtersParam_def spec_keep_layer_update [where v = Script_js]
        del: spec_keep.simps)
next
  assume h: "l \<noteq> [] \<and> l \<noteq> ''All'' \<and>
    fst (applyFilters Part_000 st a (Some (fs\<lparr>layer := Some l\<rparr>))) = Inr out"
  then have ok: "fst (applyFilters Part_000 st a (Some (fs\<lparr>layer := Some l\<rparr>))) = Inr out"
    by simp
  have out: "out = filter (spec_keep_range_layer (fs\<lparr>layer := Some l\<rparr>)) (arrayOf (dataParam st a))"
    using applyFilters_success(3) [OF ok] by simp
  have layer: "spec_layer (fs\<lparr>layer := Some l\<rparr>) r \<longleftrightarrow> d_layer r = JStr l" for r
    using h by (simp add: spec_layer_def)
  have split: "out = filter (\<lambda>r. d_layer r = JStr l)
      (filter (spec_keep_range_layer (fs\<lparr>layer := None\<rparr>)) (arrayOf (dataParam st a)))"
    unfolding out
    by (auto simp add: spec_keep_part000_layer [where x = "Some l"] layer intro!: filter_cong)
  have "fst (applyFilters Part_000 st a (Some (fs\<lparr>layer := None\<rparr>))) =
      Inr (filter (spec_keep_range_layer (fs\<lparr>layer := None\<rparr>)) (arrayOf (dataParam st a)))"
    using applyFilters_success(1,2) [OF ok]
    by (simp add: applyFilters_eq Let_def del: applyFilters.simps)
  with split show "\<exists>out0. fst (applyFilters Part_000 st a (Some (fs\<lparr>layer := None\<rparr>))) = Inr out0 \<and>
              out = filter (\<lambda>r. d_layer r = JStr l) out0"
    by blast
  from split show "\<forall>r\<in>set out. d_layer r = JStr l"
    by simp
qed


theorem applyFilters_layer_witness:
  "applyFilters Part_000 initialState (DataArray [albania2019, serbia2019])
       (Some (noFilters\<lparr>layer := Some ''All''\<rparr>)) =
     applyFilters Part_000 initialState (DataArray [albania2019, serbia2019])
       (Some (noFilters\<lparr>layer := None\<rparr>)) \<and>
   fst (applyFilters Part_000 initialState (DataArray [albania2019, serbia2019])
       (Some (noFilters\<lparr>layer := Some ''Basic''\<rparr>))) = Inr [albania2019] \<and>
   d_layer albania2019 = JStr ''Basic''"
proof -
  have ok: "fst (applyFilters Part_000 initialState (DataArray [albania2019, serbia2019])
       (Some (noFilters\<lparr>layer := Some ''Basic''\<rparr>))) = Inr [albania2019]"
    by (simp add: eval_defs)
  have ne: "''Basic'' \<noteq> []" "''Basic'' \<noteq> ''All''"
    by simp_all
  from applyFilters_layer [where v = Part_000 and st = initialState
      and a = "DataArray [albania2019, serbia2019]" and fs = noFilters and l = "''Basic''"
      and out = "[albania2019]"] ok ne
  show ?thesis
    by simp
qed

text \<open>
  Claim C2 as stated fails in \<^verbatim>\<open>script.js\<close>: with the layer set to \<^verbatim>\<open>"Advanced"\<close> a
  record whose layer is \<^verbatim>\<open>"Basic"\<close> survives.
\<close>

theorem applyFilters_script_ignores_layer:
  "fst (applyFilters_script initialState (DataArray [albania2019])
          (Some (noFilters\<lparr>layer := Some ''Advanced''\<rparr>))) = Inr [albania2019] \<and>
   d_layer albania2019 \<noteq> JStr ''Advanced''"
  by (simp add: eval_defs)

text \<open>
  Claim C3. When a run on a non-empty array succeeds, every record of the result
  satisfies the country test, the indicator test and the year test of the script (the
  two inclusive bounds in the range scripts, the exact year in the single-year script),
  and has a usable value; every input record that is not in the result fails one of
  these tests (or, in the first unnamed script, the layer test), or its value is
  \<^verbatim>\<open>null\<close>, \<^verbatim>\<open>undefined\<close> or not a number.
\<close>

theorem applyFilters_conjunction:
  assumes "dataParam st a = DataArray recs"
    and "fst (applyFilters v st a fa) = Inr out"
    and "fs = filtersOf v st fa"
  shows "recs \<noteq> [] \<and>
    (\<forall>r\<in>set out.
       spec_country fs r \<and> spec_indicator fs r \<and>
       (if v = Part_001 then spec_yearExact fs r else spec_yearRange fs r) \<and>
       d_value r \<noteq> JNull \<and> d_value r \<noteq> JUndefined \<and> \<not> isNaN (d_value r)) \<and>
    (\<forall>r\<in>set recs. r \<notin> set out \<longrightarrow>
       \<not> spec_country fs r \<or> \<not> spec_indicator fs r \<or>
       \<not> (if v = Part_001 then spec_yearExact fs r else spec_yearRange fs r) \<or>
       (v = Part_000 \<and> \<not> spec_layer fs r) \<or>
       d_value r = JNull \<or> d_value r = JUndefined \<or> isNaN (d_value r))"
proof -
  have out: "out = filter (spec_keep v fs) recs"
    using applyFilters_success(3) [OF assms(2)] assms(1,3) by simp
  have "recs \<noteq> []"
    using applyFilters_success(1) [OF assms(2)] assms(1) by auto
  then show ?thesis
    unfolding out
    by (cases v)
       (auto simp: spec_keep_range_def spec_keep_range_layer_def spec_keep_exact_def
          hasValue_def)
qed

theorem applyFilters_conjunction_witness:
  "fst (applyFilters Script_js initialState (DataArray [albania2019, serbia2019])
          (Some (noFilters\<lparr>country := Some ''Albania''\<rparr>))) = Inr [albania2019] \<and>
   spec_country (noFilters\<lparr>country := Some ''Albania''\<rparr>) albania2019 \<and>
   \<not> spec_country (noFilters\<lparr>country := Some ''Albania''\<rparr>) serbia2019"
proof -
  have ok: "fst (applyFilters Script_js initialState (DataArray [albania2019, serbia2019])
          (Some (noFilters\<lparr>country := Some ''Albania''\<rparr>))) = Inr [albania2019]"
    by (simp add: eval_defs)
  have d: "dataParam initialState (DataArray [albania2019, serbia2019]) =
      DataArray [albania2019, serbia2019]"
    by (simp add: dataParam_def)
  have f: "noFilters\<lparr>country := Some ''Albania''\<rparr> =
      filtersOf Script_js initialState (Some (noFilters\<lparr>country := Some ''Albania''\<rparr>))"
    by simp
  have rest: "serbia2019 \<noteq> albania2019"
    "spec_indicator (noFilters\<lparr>country := Some ''Albania''\<rparr>) serbia2019"
    "spec_yearRange (noFilters\<lparr>country := Some ''Albania''\<rparr>) serbia2019"
    "d_value serbia2019 = JNum (Fin 7)"
    by (simp_all add: spec_indicator_def spec_yearRange_def eval_defs)
  from applyFilters_conjunction [OF d ok f] ok rest show ?thesis
    by (simp add: isNaN_def)
qed


text \<open>
  Claim C8, as amended. After a successful run the preview shows the no-match message
  for an empty result; otherwise \<^verbatim>\<open>script.js\<close> draws the first 10 rows with no note,
  the first unnamed script draws every row with no note, and the second unnamed script
  draws the first 255 rows, with the note exactly when the result has more than 255
  rows.
\<close>

theorem preview_table_rows:
  assumes "fst (applyFilters v st a fa) = Inr out"
  shows "previewContainer (snd (applyFilters v st a fa)) =
     (if out = [] then NoDataMatches
      else case v of
          Script_js \<Rightarrow> PreviewTable (take 10 out) None
        | Part_000 \<Rightarrow> PreviewTable out None
        | Part_001 \<Rightarrow>
            PreviewTable (take 255 out)
              (if 255 < length out then Some (255, length out) else None))"
  unfolding applyFilters_success(4) [OF assms]
  by (cases v) (simp_all add: rendered_def maxPreviewRows_def)

lemma keeps_albania2019:
  "spec_keep v noFilters albania2019"
  by (cases v)
     (simp_all add: spec_keep_range_def spec_keep_range_layer_def spec_keep_exact_def
        spec_country_def spec_indicator_def spec_yearRange_def spec_yearExact_def
        spec_layer_def hasValue_def isNaN_def noFilters_def albania2019_def point_def)

lemma applyFilters_replicate:
  assumes "0 < n"
  shows "applyFilters v st (DataArray (replicate n albania2019)) (Some noFilters) =
     (Inr (replicate n albania2019),
      rendered (previewTable v) (replicate n albania2019) st)"
proof -
  have "\<not> yearRangeInvalid noFilters"
    by (simp add: yearRangeInvalid_def noFilters_def)
  moreover have "filter (spec_keep v noFilters) (replicate n albania2019) =
      replicate n albania2019"
    by (simp add: keeps_albania2019 del: spec_keep.simps)
  ultimately show ?thesis
    using assms unfolding applyFilters_eq
    by (simp add: Let_def dataParam_def del: spec_keep.simps)
qed

theorem preview_table_rows_witness:
  "fst (applyFilters Part_001 initialState (DataArray (replicate 256 albania2019))
          (Some noFilters)) = Inr (replicate 256 albania2019) \<and>
   previewContainer (snd (applyFilters Part_001 initialState
       (DataArray (replicate 256 albania2019)) (Some noFilters))) =
     PreviewTable (replicate 255 albania2019) (Some (255, 256))"
proof -
  have ok: "fst (applyFilters Part_001 initialState (DataArray (replicate 256 albania2019))
          (Some noFilters)) = Inr (replicate 256 albania2019)"
    by (simp add: applyFilters_replicate del: applyFilters.simps)
  from preview_table_rows [OF ok] ok show ?thesis
    by simp
qed

text \<open>
  Claim C8 as stated fails in two scripts: \<^verbatim>\<open>script.js\<close> draws 10 of 11 rows, and the
  first unnamed script draws all of 256 rows with no note.
\<close>

theorem preview_not_capped_at_255:
  "length (replicate 11 albania2019) \<le> 255 \<and>
   fst (applyFilters_script initialState (DataArray (replicate 11 albania2019))
          (Some noFilters)) = Inr (replicate 11 albania2019) \<and>
   previewContainer (snd (applyFilters_script initialState
       (DataArray (replicate 11 albania2019)) (Some noFilters))) =
     PreviewTable (replicate 10 albania2019) None \<and>
   255 < length (replicate 256 albania2019) \<and>
   fst (applyFilters_part000 initialState (DataArray (replicate 256 albania2019))
          (Some noFilters)) = Inr (replicate 256 albania2019) \<and>
   previewContainer (snd (applyFilters_part000 initialState
       (DataArray (replicate 256 albania2019)) (Some noFilters))) =
     PreviewTable (replicate 256 albania2019) None"
  using applyFilters_replicate [of 11 Script_js initialState]
    applyFilters_replicate [of 256 Part_000 initialState]
  by (simp add: rendered_def)


lemma js_ge_NaN: "toNumber y = NaN \<Longrightarrow> \<not> js_ge y n"
  by (simp add: js_ge_def)

lemma js_le_NaN: "toNumber y = NaN \<Longrightarrow> \<not> js_le y n"
  by (cases n) (simp_all add: js_le_def)

lemma strictEq_num_NaN: "toNumber y = NaN \<Longrightarrow> \<not> strictEq_num y n"
  by (cases y) (simp_all add: strictEq_num_def)

lemma strictEq_num_number: "strictEq_num y n \<Longrightarrow> \<exists>m. y = JNum m"
  by (cases y) (simp_all add: strictEq_num_def)

lemma spec_yearRange_unset:
  "\<not> isSet (yearFrom fs) \<Longrightarrow> \<not> isSet (yearTo fs) \<Longrightarrow> spec_yearRange fs r"
  by (auto simp: spec_yearRange_def isSet_iff split: option.splits)

lemma spec_yearExact_unset: "\<not> isSet (year fs) \<Longrightarrow> spec_yearExact fs r"
  by (auto simp: spec_yearExact_def isSet_iff split: option.splits)

lemma spec_yearRange_NaN:
  "toNumber (d_year r) = NaN \<Longrightarrow> isSet (yearFrom fs) \<or> isSet (yearTo fs) \<Longrightarrow>
   \<not> spec_yearRange fs r"
  by (auto simp: spec_yearRange_def isSet_iff js_ge_NaN js_le_NaN)

lemma spec_yearExact_not_number:
  "isSet (year fs) \<Longrightarrow> \<forall>m. d_year r \<noteq> JNum m \<Longrightarrow> \<not> spec_yearExact fs r"
  using strictEq_num_number [of "d_year r"]
  by (auto simp: spec_yearExact_def isSet_iff)

lemma spec_yearExact_NaN:
  "isSet (year fs) \<Longrightarrow> toNumber (d_year r) = NaN \<Longrightarrow> \<not> spec_yearExact fs r"
  by (auto simp: spec_yearExact_def isSet_iff strictEq_num_NaN)

lemma spec_yearRange_null:
  "d_year r = JNull \<Longrightarrow>
   spec_yearRange fs r \<longleftrightarrow>
     (\<forall>s. yearFrom fs = Some s \<and> s \<noteq> [] \<longrightarrow> lessThan_num (Fin 0) (parseInt s) = Some False) \<and>
     (\<forall>s. yearTo fs = Some s \<and> s \<noteq> [] \<longrightarrow> lessThan_num (parseInt s) (Fin 0) = Some False)"
  by (auto simp: spec_yearRange_def js_ge_def js_le_def
      split: option.splits bool.splits)

text \<open>
  Claim C10, as amended. For an input record of a successful run: with no year
  constraint set, the year plays no part in whether the record is kept; a year that
  converts to \<^verbatim>\<open>NaN\<close> (absent, \<^verbatim>\<open>NaN\<close>, a string that is no number) excludes the record
  whenever a year constraint is set; in the single-year script every year that is not a
  number excludes it; in the range scripts a \<^verbatim>\<open>null\<close> year is compared as 0, so it
  passes a bound that 0 passes.
\<close>

theorem applyFilters_year_not_a_number:
  assumes "dataParam st a = DataArray recs"
    and "fst (applyFilters v st a fa) = Inr out"
    and "fs = filtersOf v st fa"
    and "r \<in> set recs"
  shows
    "((v \<noteq> Part_001 \<and> \<not> isSet (yearFrom fs) \<and> \<not> isSet (yearTo fs)) \<or>
      (v = Part_001 \<and> \<not> isSet (year fs)) \<longrightarrow>
        (r \<in> set out \<longleftrightarrow>
           spec_country fs r \<and> spec_indicator fs r \<and> hasValue r \<and>
           (v = Part_000 \<longrightarrow> spec_layer fs r))) \<and>
     (toNumber (d_year r) = NaN \<and>
      ((v \<noteq> Part_001 \<and> (isSet (yearFrom fs) \<or> isSet (yearTo fs))) \<or>
       (v = Part_001 \<and> isSet (year fs))) \<longrightarrow> r \<notin> set out) \<and>
     (v = Part_001 \<and> isSet (year fs) \<and> (\<forall>m. d_year r \<noteq> JNum m) \<longrightarrow> r \<notin> set out) \<and>
     (v \<noteq> Part_001 \<and> d_year r = JNull \<longrightarrow>
        (r \<in> set out \<longleftrightarrow>
           spec_country fs r \<and> spec_indicator fs r \<and> hasValue r \<and>
           (v = Part_000 \<longrightarrow> spec_layer fs r) \<and>
           (\<forall>s. yearFrom fs = Some s \<and> s \<noteq> [] \<longrightarrow>
                lessThan_num (Fin 0) (parseInt s) = Some False) \<and>
           (\<forall>s. yearTo fs = Some s \<and> s \<noteq> [] \<longrightarrow>
                lessThan_num (parseInt s) (Fin 0) = Some False)))"
proof -
  have "out = filter (spec_keep v fs) recs"
    using applyFilters_success(3) [OF assms(2)] assms(1,3) by simp
  then have mem: "r \<in> set out \<longleftrightarrow> spec_keep v fs r"
    using assms(4) by simp
  show ?thesis
  proof (cases v)
    case Script_js
    then show ?thesis
      using spec_yearRange_unset [of fs r] spec_yearRange_NaN [of r fs]
        spec_yearRange_null [of r fs]
      unfolding mem by (auto simp: spec_keep_range_def)
  next
    case Part_000
    then show ?thesis
      using spec_yearRange_unset [of fs r] spec_yearRange_NaN [of r fs]
        spec_yearRange_null [of r fs]
      unfolding mem by (auto simp: spec_keep_range_layer_def)
  next
    case Part_001
    then show ?thesis
      using spec_yearExact_unset [of fs r] spec_yearExact_NaN [of fs r]
        spec_yearExact_not_number [of fs r]
      unfolding mem by (auto simp: spec_keep_exact_def)
  qed
qed


theorem applyFilters_year_not_a_number_witness:
  "toNumber (d_year noYear) = NaN \<and>
   fst (applyFilters Script_js initialState (DataArray [noYear, albania2019])
          (Some (noFilters\<lparr>yearFrom := Some ''2015''\<rparr>))) = Inr [albania2019] \<and>
   noYear \<notin> set [albania2019]"
proof -
  have ok: "fst (applyFilters Script_js initialState (DataArray [noYear, albania2019])
          (Some (noFilters\<lparr>yearFrom := Some ''2015''\<rparr>))) = Inr [albania2019]"
    by (simp add: eval_defs noYear_def)
  have d: "dataParam initialState (DataArray [noYear, albania2019]) =
      DataArray [noYear, albania2019]"
    by (simp add: dataParam_def)
  have f: "noFilters\<lparr>yearFrom := Some ''2015''\<rparr> =
      filtersOf Script_js initialState (Some (noFilters\<lparr>yearFrom := Some ''2015''\<rparr>))"
    by simp
  have nan: "toNumber (d_year noYear) = NaN"
    by (simp add: noYear_def point_def)
  have "noYear \<in> set [noYear, albania2019]"
    by simp
  from applyFilters_year_not_a_number [OF d ok f this] nan ok show ?thesis
    by simp
qed

text \<open>
  Claim C10 as stated fails for a \<^verbatim>\<open>null\<close> year under an upper bound alone:
  \<^verbatim>\<open>null <= 2022\<close> is true.
\<close>

theorem null_year_kept_under_yearTo:
  "d_year nullYear = JNull \<and>
   isSet (yearTo (noFilters\<lparr>yearTo := Some ''2022''\<rparr>)) \<and>
   fst (applyFilters_script initialState (DataArray [nullYear])
          (Some (noFilters\<lparr>yearTo := Some ''2022''\<rparr>))) = Inr [nullYear]"
  by (simp add: eval_defs nullYear_def)

subsection \<open>The year options\<close>

text \<open>
  Decimal strings of one length are ordered under \<^verbatim>\<open><\<close> as the numbers they write.
\<close>

lemma of_char_digitChar: "d < 10 \<Longrightarrow> (of_char (digitChar d) :: nat) = 48 + d"
  by (drule digit_cases) (auto simp: digitChar_def)

lemma str_less_snoc:
  "length xs = length ys \<Longrightarrow>
   str_less (xs @ [c]) (ys @ [d]) \<longleftrightarrow>
     str_less xs ys \<or> (\<not> str_less ys xs \<and> (of_char c :: nat) < of_char d)"
  by (induction xs ys rule: list_induct2) auto

lemma length_showNat_one: "length (showNat n) = Suc 0 \<longleftrightarrow> n < 10"
proof (cases "n < 10")
  case True
  then show ?thesis by (simp add: showNat.simps [of n])
next
  case False
  have "showNat (n div 10) \<noteq> []" by (rule showNat_nonempty)
  then have "length (showNat (n div 10)) \<noteq> 0" by simp
  with False show ?thesis by (simp add: showNat.simps [of n])
qed

lemma lex_div_mod:
  fixes a b :: nat
  shows "(a div 10 < b div 10 \<or> (\<not> b div 10 < a div 10 \<and> a mod 10 < b mod 10)) \<longleftrightarrow> a < b"
proof -
  define qa ra qb rb where defs: "qa = a div 10" "ra = a mod 10" "qb = b div 10" "rb = b mod 10"
  have eq: "a = 10 * qa + ra" "b = 10 * qb + rb" and bound: "ra < 10" "rb < 10"
    by (simp_all add: defs)
  have "(qa < qb \<or> (\<not> qb < qa \<and> ra < rb)) \<longleftrightarrow> 10 * qa + ra < 10 * qb + rb"
    using bound by arith
  then show ?thesis
    unfolding defs [symmetric] eq [symmetric] by (simp only: eq [symmetric] flip: defs)
qed

lemma str_less_asym: "str_less xs ys \<Longrightarrow> \<not> str_less ys xs"
  by (induction xs ys rule: str_less.induct) (auto split: if_splits)

lemma str_less_showNat:
  "length (showNat a) = length (showNat b) \<Longrightarrow> str_less (showNat a) (showNat b) \<longleftrightarrow> a < b"
proof (induction a arbitrary: b rule: less_induct)
  case (less a)
  show ?case
  proof (cases "a < 10")
    case True
    then have "length (showNat b) = Suc 0"
      using less.prems length_showNat_one [of a] by simp
    then have "b < 10"
      by (simp add: length_showNat_one)
    with True show ?thesis
      by (simp add: showNat.simps [of a] showNat.simps [of b] of_char_digitChar)
  next
    case False
    then have "length (showNat a) \<noteq> Suc 0"
      by (simp add: length_showNat_one)
    then have b: "\<not> b < 10"
      using less.prems length_showNat_one [of b] by simp
    have sa: "showNat a = showNat (a div 10) @ [digitChar (a mod 10)]"
      using False by (simp add: showNat.simps [of a])
    have sb: "showNat b = showNat (b div 10) @ [digitChar (b mod 10)]"
      using b by (simp add: showNat.simps [of b])
    have len: "length (showNat (a div 10)) = length (showNat (b div 10))"
      using less.prems unfolding sa sb by simp
    have "a div 10 < a"
      using False by simp
    then have ih1: "str_less (showNat (a div 10)) (showNat (b div 10)) \<longleftrightarrow> a div 10 < b div 10"
      using less.IH [of "a div 10" "b div 10"] len by simp
    have ih2: "str_less (showNat (b div 10)) (showNat (a div 10)) \<longleftrightarrow> b div 10 < a div 10"
    proof (cases "b div 10 < a")
      case True
      then show ?thesis using less.IH [of "b div 10" "a div 10"] len by simp
    next
      case False
      then have "a div 10 < b div 10" using \<open>a div 10 < a\<close> by linarith
      then have "str_less (showNat (a div 10)) (showNat (b div 10))" using ih1 by simp
      moreover have "\<not> b div 10 < a div 10" using \<open>a div 10 < b div 10\<close> by simp
      ultimately show ?thesis using str_less_asym by blast
    qed
    have "str_less (showNat a) (showNat b) \<longleftrightarrow>
        a div 10 < b div 10 \<or> (\<not> b div 10 < a div 10 \<and> a mod 10 < b mod 10)"
      unfolding sa sb by (simp add: str_less_snoc [OF len] ih1 ih2 of_char_digitChar)
    also have "\<dots> \<longleftrightarrow> a < b"
      by (rule lex_div_mod)
    finally show ?thesis .
  qed
qed

text \<open>
  \<^verbatim>\<open>new Set\<close>, \<^verbatim>\<open>filter\<close> and \<^verbatim>\<open>sort()\<close> keep the elements: the years are the truthy
  years of the records, each once.
\<close>

lemma set_foldl_newSet:
  "set (foldl (\<lambda>acc x. if x \<in> set acc then acc else acc @ [x]) acc xs) = set acc \<union> set xs"
  by (induction xs arbitrary: acc) auto

lemma distinct_foldl_newSet:
  "distinct acc \<Longrightarrow> distinct (foldl (\<lambda>acc x. if x \<in> set acc then acc else acc @ [x]) acc xs)"
  by (induction xs arbitrary: acc) auto

lemma set_newSet [simp]: "set (newSet xs) = set xs"
  by (simp add: newSet_def set_foldl_newSet)

lemma distinct_newSet [simp]: "distinct (newSet xs)"
  by (simp add: newSet_def distinct_foldl_newSet)

lemma set_insertByString: "set (insertByString p ps) = insert p (set ps)"
  by (induction p ps rule: insertByString.induct) auto

lemma distinct_insertByString:
  "distinct (map snd (insertByString p ps)) \<longleftrightarrow>
     snd p \<notin> snd ` set ps \<and> distinct (map snd ps)"
  by (induction p ps rule: insertByString.induct) (auto simp: set_insertByString)

lemma set_foldr_insertByString: "set (foldr insertByString qs []) = set qs"
  by (induction qs) (simp_all add: set_insertByString)

lemma distinct_foldr_insertByString:
  "distinct (map snd (foldr insertByString qs [])) = distinct (map snd qs)"
  by (induction qs) (simp_all add: distinct_insertByString set_foldr_insertByString)

lemma sortDefault_set_distinct:
  "set (sortDefault digits xs) = set xs" "distinct xs \<Longrightarrow> distinct (sortDefault digits xs)"
proof -
  let ?defined = "filter (\<lambda>x. x \<noteq> JUndefined) xs"
  let ?undefs = "filter (\<lambda>x. x = JUndefined) xs"
  let ?pairs = "map (\<lambda>x. (toString digits x, x)) ?defined"
  have ys: "sortDefault digits xs = map snd (foldr insertByString ?pairs []) @ ?undefs"
    by (simp add: sortDefault_def Let_def)
  have snd_pairs: "map snd ?pairs = ?defined"
    by (simp add: comp_def)
  have "set (map snd (foldr insertByString ?pairs [])) = set (map snd ?pairs)"
    by (simp only: set_map set_foldr_insertByString)
  then have sorted_part: "set (map snd (foldr insertByString ?pairs [])) = set ?defined"
    by (simp only: snd_pairs)
  then show "set (sortDefault digits xs) = set xs"
    unfolding ys by auto
  show "distinct (sortDefault digits xs)" if "distinct xs"
  proof -
    have "distinct (map snd (foldr insertByString ?pairs []))"
      using that by (simp only: distinct_foldr_insertByString snd_pairs distinct_filter)
    moreover have "set (map snd (foldr insertByString ?pairs [])) \<inter> set ?undefs = {}"
      using sorted_part by auto
    ultimately show ?thesis
      unfolding ys using that by simp
  qed
qed

lemma yearsOf_set_distinct:
  "set (yearsOf digits recs) = {y \<in> d_year ` set recs. truthy y}"
  "distinct (yearsOf digits recs)"
  by (auto simp: yearsOf_def sortDefault_set_distinct)

lemma insertByString_insort:
  assumes "\<forall>n\<in>set (a # ns). length (showNat n) = k"
  shows "insertByString (showNat a, g a) (map (\<lambda>n. (showNat n, g n)) ns) =
         map (\<lambda>n. (showNat n, g n)) (insort a ns)"
  using assms
proof (induction ns)
  case Nil
  then show ?case by simp
next
  case (Cons b ns)
  then have "length (showNat b) = length (showNat a)"
    by simp
  then have "str_less (showNat b) (showNat a) \<longleftrightarrow> b < a"
    by (rule str_less_showNat)
  with Cons show ?case
    by (auto simp: not_less)
qed

lemma foldr_insertByString_sort:
  assumes "\<forall>n\<in>set ns. length (showNat n) = k"
  shows "foldr insertByString (map (\<lambda>n. (showNat n, g n)) ns) [] =
         map (\<lambda>n. (showNat n, g n)) (sort ns)"
  using assms
proof (induction ns)
  case Nil
  then show ?case by simp
next
  case (Cons a ns)
  then have "\<forall>n\<in>set (a # sort ns). length (showNat n) = k"
    by simp
  from insertByString_insort [OF this, of g] Cons show ?case
    by simp
qed

lemma toString_whole:
  "n < 10 ^ 21 \<Longrightarrow> toString digits (JNum (Fin (real n))) = showNat n"
proof -
  assume "n < 10 ^ 21"
  then have "real n < 10 ^ 21"
    by (metis of_nat_less_iff of_nat_numeral of_nat_power)
  then show ?thesis
    by (simp add: numberToString_def)
qed

lemma sorted_hd_Min:
  fixes xs :: "nat list"
  assumes "sorted xs" "xs \<noteq> []"
  shows "hd xs = Min (set xs)"
proof -
  from assms obtain x rest where xs: "xs = x # rest"
    by (cases xs) auto
  with assms(1) have "\<forall>y\<in>set xs. x \<le> y"
    by auto
  then have "Min (set xs) = x"
    using xs by (intro Min_eqI) auto
  with xs show ?thesis
    by simp
qed

lemma sorted_le_last:
  fixes xs :: "nat list"
  shows "sorted xs \<Longrightarrow> y \<in> set xs \<Longrightarrow> y \<le> last xs"
  by (induction xs) auto

lemma sorted_last_Max:
  fixes xs :: "nat list"
  assumes "sorted xs" "xs \<noteq> []"
  shows "last xs = Max (set xs)"
proof -
  have "Max (set xs) = last xs"
    using assms sorted_le_last [OF assms(1)] by (intro Max_eqI) auto
  then show ?thesis
    by simp
qed

text \<open>The years of the records when they are whole numbers of one length.\<close>

lemma yearsOf_sorted:
  assumes "\<forall>r\<in>set recs. truthy (d_year r) \<longrightarrow>
             (\<exists>n. d_year r = JNum (Fin (real n)) \<and> n < 10 ^ 21 \<and> length (showNat n) = k)"
  shows "yearsOf digits recs =
           map (\<lambda>n. JNum (Fin (real n)))
             (sorted_list_of_set (yearNat ` {y \<in> d_year ` set recs. truthy y}))"
    and "map (toString digits) (yearsOf digits recs) =
           map showNat (sorted_list_of_set (yearNat ` {y \<in> d_year ` set recs. truthy y}))"
proof -
  let ?g = "\<lambda>n. JNum (Fin (real n))"
  let ?ys = "filter truthy (newSet (map d_year recs))"
  let ?ns = "map yearNat ?ys"
  have whole: "\<exists>n. y = ?g n \<and> n < 10 ^ 21 \<and> length (showNat n) = k" if "y \<in> set ?ys" for y
    using that assms by auto
  have inv: "?g (yearNat y) = y" and small: "yearNat y < 10 ^ 21"
    and len: "length (showNat (yearNat y)) = k" if "y \<in> set ?ys" for y
    using whole [OF that] by auto
  have "map (?g \<circ> yearNat) ?ys = ?ys"
  proof (rule map_idI)
    fix y assume "y \<in> set ?ys"
    from inv [OF this] show "(?g \<circ> yearNat) y = y"
      by simp
  qed
  then have ys: "map ?g ?ns = ?ys"
    by simp
  have defined: "filter (\<lambda>x. x \<noteq> JUndefined) ?ys = ?ys"
    and undefs: "filter (\<lambda>x. x = JUndefined) ?ys = []"
    by (auto simp: filter_empty_conv intro!: filter_cong)
  have "toString digits y = showNat (yearNat y)" if "y \<in> set ?ys" for y
    using toString_whole [OF small [OF that], of digits] inv [OF that] by simp
  then have "\<forall>y\<in>set ?ys. (toString digits y, y) = (showNat (yearNat y), ?g (yearNat y))"
    using inv by simp
  then have "map (\<lambda>x. (toString digits x, x)) ?ys =
      map (\<lambda>y. (showNat (yearNat y), ?g (yearNat y))) ?ys"
    by (intro map_cong refl) blast
  then have pairs: "map (\<lambda>x. (toString digits x, x)) ?ys =
      map (\<lambda>n. (showNat n, ?g n)) ?ns"
    by (simp add: comp_def)
  have "\<forall>n\<in>set ?ns. length (showNat n) = k"
    using len by auto
  then have sorted: "foldr insertByString (map (\<lambda>n. (showNat n, ?g n)) ?ns) [] =
      map (\<lambda>n. (showNat n, ?g n)) (sort ?ns)"
    by (rule foldr_insertByString_sort)
  have "inj_on yearNat (set ?ys)"
    using inv by (metis inj_onI)
  then have "distinct ?ns"
    by (simp add: distinct_map)
  then have "sort ?ns = sorted_list_of_set (set ?ns)"
    by (simp only: sorted_list_of_set_sort_remdups distinct_remdups_id)
  moreover have "set ?ns = yearNat ` {y \<in> d_year ` set recs. truthy y}"
    by auto
  ultimately have sort: "sort ?ns =
      sorted_list_of_set (yearNat ` {y \<in> d_year ` set recs. truthy y})"
    by simp
  have "yearsOf digits recs = map snd (map (\<lambda>n. (showNat n, ?g n)) (sort ?ns))"
    unfolding yearsOf_def sortDefault_def Let_def defined undefs pairs sorted by simp
  then show years: "yearsOf digits recs =
      map ?g (sorted_list_of_set (yearNat ` {y \<in> d_year ` set recs. truthy y}))"
    unfolding sort by (simp add: comp_def)
  have "set (sort ?ns) = set ?ns"
    by simp
  then have "\<forall>n\<in>set (sort ?ns). n < 10 ^ 21"
    using small by auto
  then have "\<forall>n\<in>set (sort ?ns). toString digits (?g n) = showNat n"
    using toString_whole by blast
  then have "map (\<lambda>n. toString digits (?g n)) (sort ?ns) = map showNat (sort ?ns)"
    by (intro map_cong refl) blast
  then have "map (toString digits) (map ?g (sort ?ns)) = map showNat (sort ?ns)"
    by (simp only: map_map comp_def)
  then show "map (toString digits) (yearsOf digits recs) =
      map showNat (sorted_list_of_set (yearNat ` {y \<in> d_year ` set recs. truthy y}))"
    unfolding years sort .
qed

lemma appendYears_eq:
  "appendYears digits years (opts, val) =
     (opts @ map (toString digits) years,
      if val \<in> set opts \<or> years = [] then val else hd (opts @ map (toString digits) years))"
proof -
  have "foldl (\<lambda>s y. appendChild (toString digits y) s) (opts, val) years =
     (opts @ map (toString digits) years,
      if val \<in> set opts \<or> years = [] then val else hd (opts @ map (toString digits) years))"
  proof (induction years arbitrary: opts val)
    case Nil
    then show ?case by simp
  next
    case (Cons y ys)
    let ?v = "toString digits y"
    have step: "appendChild ?v (opts, val) =
        (opts @ [?v], if val \<in> set opts then val else hd (opts @ [?v]))"
      by (simp add: appendChild_def)
    have "hd (opts @ [?v]) \<in> set (opts @ [?v])"
      by (rule hd_in_set) simp
    then show ?case
      by (simp add: step Cons.IH hd_append)
  qed
  then show ?thesis
    by (simp add: appendYears_def)
qed

text \<open>What \<^verbatim>\<open>populateFilters\<close> leaves in the selects, in each script.\<close>

lemma populateFilters_part000_eq:
  assumes "allIndicatorsData st = DataArray recs"
    and "years = yearsOf digits recs" and "opts = map (toString digits) years"
  shows "populateFilters_part000 digits st =
     Inr (st\<lparr>yearFromOptions := yearFromOptions st @ opts,
              yearFromFilter := (if years = [] then yearFromFilter st else hd opts),
              yearToOptions := yearToOptions st @ opts,
              yearToFilter := (if years = [] then yearToFilter st else last opts)\<rparr>)"
proof (cases "years = []")
  case True
  then show ?thesis
    using assms by (simp add: populateFilters_part000_def appendYears_eq)
next
  case False
  then have "toString digits (years ! 0) = hd opts"
    and "toString digits (years ! (length years - 1)) = last opts"
    using assms(3) by (simp_all add: hd_conv_nth last_conv_nth)
  moreover have "opts \<noteq> []"
    using False assms(3) by simp
  then have "hd opts \<in> set opts" "last opts \<in> set opts"
    by (rule hd_in_set, rule last_in_set)
  ultimately show ?thesis
    using False assms(1) unfolding populateFilters_part000_def
    by (simp add: appendYears_eq setValue_def Let_def flip: assms(2) assms(3))
qed

lemma populateFilters_part001_eq:
  assumes "allIndicatorsData st = DataArray recs"
    and "years = yearsOf digits recs" and "opts = map (toString digits) years"
  shows "populateFilters_part001 digits st =
     Inr (st\<lparr>yearOptions := yearOptions st @ opts,
              yearFilter := (if yearFilter st \<in> set (yearOptions st) \<or> years = []
                             then yearFilter st else hd (yearOptions st @ opts))\<rparr>)"
  using assms by (simp add: populateFilters_part001_def appendYears_eq Let_def)

lemma years_script_strings:
  "map (toString digits) years_script =
     [''2015'', ''2016'', ''2017'', ''2018'', ''2019'', ''2020'', ''2021'', ''2022'']"
  by (simp add: years_script_def numberToString_def showNat.simps digitChar_def)

lemma populateFilters_script_eq:
  assumes "allIndicatorsData st = DataArray recs"
  shows "populateFilters_script digits st =
     Inr (st\<lparr>yearFromOptions := yearFromOptions st @
                 [''2015'', ''2016'', ''2017'', ''2018'', ''2019'', ''2020'', ''2021'', ''2022''],
              yearFromFilter := ''2015'',
              yearToOptions := yearToOptions st @
                 [''2015'', ''2016'', ''2017'', ''2018'', ''2019'', ''2020'', ''2021'', ''2022''],
              yearToFilter := ''2022''\<rparr>)"
  using assms
  by (simp add: populateFilters_script_def appendYears_eq years_script_strings setValue_def
      Let_def)

text \<open>
  Claim C9, as amended. In the two unnamed scripts the year options are taken from the
  loaded records: the years are the distinct truthy years of the records, each once,
  and their strings are appended to both range selects (first unnamed script) or to
  the one year select (second). When every truthy year is a whole number below
  \<open>10\<^sup>2\<^sup>1\<close> and all of them are written with the same number \<open>k\<close> of digits, the
  years are in ascending numeric order, and the first unnamed script sets the "from"
  select to the least and the "to" select to the greatest observed year. \<^verbatim>\<open>script.js\<close>
  appends the years 2015 to 2022 and sets 2015 and 2022, whatever the records are.
\<close>

theorem year_options:
  assumes "allIndicatorsData st = DataArray recs"
    and "N = yearNat ` {y \<in> d_year ` set recs. truthy y}"
  shows
    "set (yearsOf digits recs) = {y \<in> d_year ` set recs. truthy y} \<and>
     distinct (yearsOf digits recs) \<and>
     (\<exists>st'. populateFilters_part000 digits st = Inr st' \<and>
        yearFromOptions st' = yearFromOptions st @ map (toString digits) (yearsOf digits recs) \<and>
        yearToOptions st' = yearToOptions st @ map (toString digits) (yearsOf digits recs)) \<and>
     (\<exists>st'. populateFilters_part001 digits st = Inr st' \<and>
        yearOptions st' = yearOptions st @ map (toString digits) (yearsOf digits recs)) \<and>
     ((\<forall>r\<in>set recs. truthy (d_year r) \<longrightarrow>
          (\<exists>n. d_year r = JNum (Fin (real n)) \<and> n < 10 ^ 21 \<and> length (showNat n) = k)) \<longrightarrow>
        yearsOf digits recs = map (\<lambda>n. JNum (Fin (real n))) (sorted_list_of_set N) \<and>
        map (toString digits) (yearsOf digits recs) = map showNat (sorted_list_of_set N) \<and>
        (N \<noteq> {} \<longrightarrow>
           (\<exists>st'. populateFilters_part000 digits st = Inr st' \<and>
              yearFromFilter st' = showNat (Min N) \<and> yearToFilter st' = showNat (Max N)))) \<and>
     (\<exists>st'. populateFilters_script digits st = Inr st' \<and>
        yearFromOptions st' = yearFromOptions st @
          [''2015'', ''2016'', ''2017'', ''2018'', ''2019'', ''2020'', ''2021'', ''2022''] \<and>
        yearToOptions st' = yearToOptions st @
          [''2015'', ''2016'', ''2017'', ''2018'', ''2019'', ''2020'', ''2021'', ''2022''] \<and>
        yearFromFilter st' = ''2015'' \<and> yearToFilter st' = ''2022'')"
proof -
  let ?years = "yearsOf digits recs"
  let ?opts = "map (toString digits) ?years"
  note p0 = populateFilters_part000_eq [OF assms(1) refl refl, of digits]
  note p1 = populateFilters_part001_eq [OF assms(1) refl refl, of digits]
  note ps = populateFilters_script_eq [OF assms(1), of digits]
  have general: "set ?years = {y \<in> d_year ` set recs. truthy y}" "distinct ?years"
    by (rule yearsOf_set_distinct)+
  have part000: "\<exists>st'. populateFilters_part000 digits st = Inr st' \<and>
        yearFromOptions st' = yearFromOptions st @ ?opts \<and>
        yearToOptions st' = yearToOptions st @ ?opts"
    unfolding p0 by simp
  have part001: "\<exists>st'. populateFilters_part001 digits st = Inr st' \<and>
        yearOptions st' = yearOptions st @ ?opts"
    unfolding p1 by simp
  have script: "\<exists>st'. populateFilters_script digits st = Inr st' \<and>
        yearFromOptions st' = yearFromOptions st @
          [''2015'', ''2016'', ''2017'', ''2018'', ''2019'', ''2020'', ''2021'', ''2022''] \<and>
        yearToOptions st' = yearToOptions st @
          [''2015'', ''2016'', ''2017'', ''2018'', ''2019'', ''2020'', ''2021'', ''2022''] \<and>
        yearFromFilter st' = ''2015'' \<and> yearToFilter st' = ''2022''"
    unfolding ps by simp
  have ordered: "?years = map (\<lambda>n. JNum (Fin (real n))) (sorted_list_of_set N) \<and>
        ?opts = map showNat (sorted_list_of_set N) \<and>
        (N \<noteq> {} \<longrightarrow>
           (\<exists>st'. populateFilters_part000 digits st = Inr st' \<and>
              yearFromFilter st' = showNat (Min N) \<and> yearToFilter st' = showNat (Max N)))"
    if cond: "\<forall>r\<in>set recs. truthy (d_year r) \<longrightarrow>
          (\<exists>n. d_year r = JNum (Fin (real n)) \<and> n < 10 ^ 21 \<and> length (showNat n) = k)"
  proof -
    have years: "?years = map (\<lambda>n. JNum (Fin (real n))) (sorted_list_of_set N)"
      and opts: "?opts = map showNat (sorted_list_of_set N)"
      unfolding assms(2) by (rule yearsOf_sorted [OF cond])+
    have fin: "finite N"
      unfolding assms(2) by simp
    have bounds: "\<exists>st'. populateFilters_part000 digits st = Inr st' \<and>
        yearFromFilter st' = showNat (Min N) \<and> yearToFilter st' = showNat (Max N)"
      if "N \<noteq> {}"
    proof -
      let ?sl = "sorted_list_of_set N"
      have ne: "?sl \<noteq> []"
        using fin that by simp
      have "hd ?sl = Min N" "last ?sl = Max N"
        using sorted_hd_Min [of ?sl] sorted_last_Max [of ?sl] ne fin by simp_all
      then have "hd ?opts = showNat (Min N)" "last ?opts = showNat (Max N)"
        unfolding opts using ne by (simp_all add: hd_map last_map)
      moreover have "?years \<noteq> []"
        unfolding years using ne by simp
      ultimately show ?thesis
        unfolding p0 by simp
    qed
    from years opts bounds show ?thesis
      by blast
  qed
  from general part000 part001 ordered script show ?thesis
    by blast
qed

lemmas year_defs =
  yearsOf_def newSet_def sortDefault_def numberToString_def showNat.simps digitChar_def
  point_def Let_def appendYears_def appendChild_def setValue_def sampleDigits_def

lemma yearsOf_yearSample:
  "yearsOf sampleDigits yearSample = [JNum (Fin 2010), JNum (Fin 2019)]"
  by (simp add: year_defs yearSample_def)

lemma yearSample_whole:
  "\<forall>r\<in>set yearSample. truthy (d_year r) \<longrightarrow>
     (\<exists>n. d_year r = JNum (Fin (real n)) \<and> n < 10 ^ 21 \<and> length (showNat n) = 4)"
proof -
  have "\<exists>n. JNum (Fin 2019) = JNum (Fin (real n)) \<and> n < 10 ^ 21 \<and> length (showNat n) = 4"
    by (rule exI [of _ 2019]) (simp add: showNat.simps)
  moreover have
    "\<exists>n. JNum (Fin 2010) = JNum (Fin (real n)) \<and> n < 10 ^ 21 \<and> length (showNat n) = 4"
    by (rule exI [of _ 2010]) (simp add: showNat.simps)
  ultimately show ?thesis
    by (simp add: yearSample_def point_def)
qed

lemma yearSample_observed:
  "{2010, 2019} = yearNat ` {y \<in> d_year ` set yearSample. truthy y}"
proof -
  have "{y \<in> d_year ` set yearSample. truthy y} = {JNum (Fin 2010), JNum (Fin 2019)}"
    by (auto simp: yearSample_def point_def)
  then show ?thesis
    by simp
qed

theorem year_options_witness:
  "yearsOf sampleDigits yearSample = [JNum (Fin 2010), JNum (Fin 2019)] \<and>
   populateFilters_part000 sampleDigits yearSampleState =
     Inr (yearSampleState\<lparr>yearFromOptions := [''2010'', ''2019''],
            yearToOptions := [''2010'', ''2019''],
            yearFromFilter := ''2010'', yearToFilter := ''2019''\<rparr>)"
proof -
  have st: "allIndicatorsData yearSampleState = DataArray yearSample"
    by (simp add: yearSampleState_def)
  note t = year_options [OF st yearSample_observed, of sampleDigits 4]
  then have "yearsOf sampleDigits yearSample =
      map (\<lambda>n. JNum (Fin (real n))) (sorted_list_of_set {2010, 2019})"
    and "\<exists>st'. populateFilters_part000 sampleDigits yearSampleState = Inr st' \<and>
           yearFromFilter st' = showNat (Min {2010, 2019}) \<and>
           yearToFilter st' = showNat (Max {2010, 2019})"
    using yearSample_whole by blast+
  then have "yearsOf sampleDigits yearSample = [JNum (Fin 2010), JNum (Fin 2019)]"
    by simp
  moreover have "populateFilters_part000 sampleDigits yearSampleState =
     Inr (yearSampleState\<lparr>yearFromOptions := [''2010'', ''2019''],
            yearToOptions := [''2010'', ''2019''],
            yearFromFilter := ''2010'', yearToFilter := ''2019''\<rparr>)"
    using populateFilters_part000_eq [OF st refl refl, of sampleDigits]
    by (simp add: yearsOf_yearSample yearSampleState_def initialState_def
        numberToString_def showNat.simps digitChar_def)
  ultimately show ?thesis
    by simp
qed

text \<open>
  Claim C9 as stated fails in \<^verbatim>\<open>script.js\<close>: the records hold the years 2010 and 2019,
  the options are 2015 to 2022 and the "from" bound is 2015.
\<close>

theorem years_script_not_from_data:
  "yearsOf sampleDigits yearSample = [JNum (Fin 2010), JNum (Fin 2019)] \<and>
   populateFilters_script sampleDigits yearSampleState =
     Inr (yearSampleState\<lparr>yearFromOptions :=
              [''2015'', ''2016'', ''2017'', ''2018'', ''2019'', ''2020'', ''2021'', ''2022''],
            yearToOptions :=
              [''2015'', ''2016'', ''2017'', ''2018'', ''2019'', ''2020'', ''2021'', ''2022''],
            yearFromFilter := ''2015'', yearToFilter := ''2022''\<rparr>)"
proof -
  have st: "allIndicatorsData yearSampleState = DataArray yearSample"
    by (simp add: yearSampleState_def)
  show ?thesis
    using populateFilters_script_eq [OF st, of sampleDigits]
    by (simp add: yearsOf_yearSample yearSampleState_def initialState_def)
qed

text \<open>
  Without the condition on the digits the order of the derived years is the order of
  their strings, since \<^verbatim>\<open>sort()\<close> is called with no comparison function: 2015 comes
  before 900, and the range then runs from 2015 to 900.
\<close>

lemma populateFilters_orders_by_string:
  "populateFilters_part000 sampleDigits mixedDigitsState =
     Inr (mixedDigitsState\<lparr>yearFromOptions := [''2015'', ''900''],
            yearToOptions := [''2015'', ''900''],
            yearFromFilter := ''2015'', yearToFilter := ''900''\<rparr>)"
  by (simp add: populateFilters_part000_def mixedDigitsState_def initialState_def year_defs)

text \<open>A year that is no whole number is an option like every other.\<close>

lemma populateFilters_fraction:
  "populateFilters_part000 sampleDigits fractionState =
     Inr (fractionState\<lparr>yearFromOptions := [''2010'', ''2019.5''],
            yearToOptions := [''2010'', ''2019.5''],
            yearFromFilter := ''2010'', yearToFilter := ''2019.5''\<rparr>)"
  by (simp add: populateFilters_part000_def fractionState_def initialState_def year_defs)

text \<open>
  The second unnamed script assigns no value to its select: on a select with no
  option, the first year appended becomes its value.
\<close>

lemma populateFilters_part001_selects_first:
  "populateFilters_part001 sampleDigits yearSampleState =
     Inr (yearSampleState\<lparr>yearOptions := [''2010'', ''2019''], yearFilter := ''2010''\<rparr>)"
proof -
  have st: "allIndicatorsData yearSampleState = DataArray yearSample"
    by (simp add: yearSampleState_def)
  show ?thesis
    using populateFilters_part001_eq [OF st refl refl, of sampleDigits]
    by (simp add: yearsOf_yearSample yearSampleState_def initialState_def
        numberToString_def showNat.simps digitChar_def)
qed

end
